theory Spec2Isabelle
  imports Complex_Main
begin

section \<open>JavaScript values\<close>

text \<open>
  The values that \<^verbatim>\<open>clientWrapper.js\<close> handles: the arguments of its functions, the
  bodies and errors that the \<^verbatim>\<open>request\<close> library hands to a callback, and what the
  promises settle with. Numbers are exact: a finite number is a rational, so there is no
  rounding, no overflow to Infinity and no negative zero. A string is a \<^typ>\<open>string\<close>:
  a code unit below 128 is one \<^typ>\<open>char\<close>, a higher one the two or three bytes of
  its UTF-8 form. An object is the list of its own enumerable
  properties in enumeration order; \<open>JError name message\<close> is an \<^verbatim>\<open>Error\<close> object,
  whose properties are not enumerable.

  Left out: numbers beyond the exact range of a double (\<^verbatim>\<open>1e400\<close> is Infinity in
  JavaScript and \<open>10 ^ 400\<close> here); functions, so the objects here have no method of
  their own, and an object whose own property \<^verbatim>\<open>toString\<close> or \<^verbatim>\<open>valueOf\<close> holds data,
  for which a conversion to a string throws in JavaScript, is converted like any other; and
  errors with enumerable fields, such as the system errors of Node, which
  \<^verbatim>\<open>JSON.stringify\<close> prints with their fields and not as \<^verbatim>\<open>{}\<close>. The properties
  below are about the values as they are described here.
\<close>

datatype jsnum = Fin rat | NaN | PosInfinity | NegInfinity

datatype jsval =
    JUndefined
  | JNull
  | JBool bool
  | JNum jsnum
  | JStr string
  | JArr "jsval list"
  | JObj "(string \<times> jsval) list"
  | JError string string

text \<open>ToBoolean: what \<^verbatim>\<open>!x\<close>, \<^verbatim>\<open>x && y\<close> and \<^verbatim>\<open>x || y\<close> test.\<close>

fun truthy :: "jsval \<Rightarrow> bool" where
  "truthy JUndefined = False"
| "truthy JNull = False"
| "truthy (JBool b) = b"
| "truthy (JNum (Fin r)) = (r \<noteq> 0)"
| "truthy (JNum NaN) = False"
| "truthy (JNum PosInfinity) = True"
| "truthy (JNum NegInfinity) = True"
| "truthy (JStr s) = (s \<noteq> [])"
| "truthy (JArr xs) = True"
| "truthy (JObj kvs) = True"
| "truthy (JError n m) = True"

text \<open>\<^verbatim>\<open>a || b\<close>\<close>

definition js_or :: "jsval \<Rightarrow> jsval \<Rightarrow> jsval" where
  "js_or a b = (if truthy a then a else b)"

text \<open>\<^verbatim>\<open>Number.isInteger(x)\<close>: a number, finite, with no fractional part.\<close>

fun Number_isInteger :: "jsval \<Rightarrow> bool" where
  "Number_isInteger (JNum (Fin r)) = (of_int \<lfloor>r\<rfloor> = r)"
| "Number_isInteger _ = False"

subsection \<open>Number to string\<close>

definition digit_char :: "nat \<Rightarrow> char" where
  "digit_char d = ''0123456789'' ! d"

fun dec_digits :: "nat \<Rightarrow> nat list" where
  "dec_digits n = (if n < 10 then [n] else dec_digits (n div 10) @ [n mod 10])"

declare dec_digits.simps [simp del]

text \<open>
  The digits after the decimal point of \<open>rem / den\<close> by long division. Every JavaScript
  number is a finite decimal, whose expansion ends within \<open>den\<close> steps.
\<close>

fun frac_digits :: "nat \<Rightarrow> nat \<Rightarrow> nat \<Rightarrow> nat list" where
  "frac_digits 0 rem den = []"
| "frac_digits (Suc fuel) rem den =
     (if rem = 0 then [] else (rem * 10) div den # frac_digits fuel ((rem * 10) mod den) den)"

text \<open>
  Number::toString on the digits \<open>s\<close> of a positive number \<open>s * 10 ^ (n - k)\<close>, where
  \<open>k\<close> is the number of digits: plain digits up to 21 integer digits, a decimal point,
  up to six leading zeros after \<^verbatim>\<open>0.\<close>, the exponent form otherwise.
\<close>

definition format_digits :: "nat list \<Rightarrow> int \<Rightarrow> string" where
  "format_digits s n =
     (let k = int (length s); ds = map digit_char s in
      if k \<le> n \<and> n \<le> 21 then ds @ replicate (nat (n - k)) (CHR ''0'')
      else if 0 < n \<and> n \<le> 21 then take (nat n) ds @ ''.'' @ drop (nat n) ds
      else if - 6 < n \<and> n \<le> 0 then ''0.'' @ replicate (nat (- n)) (CHR ''0'') @ ds
      else
        (let e = n - 1;
             es = (if e < 0 then ''-'' else ''+'') @ map digit_char (dec_digits (nat \<bar>e\<bar>))
         in if k = 1 then ds @ ''e'' @ es
            else take 1 ds @ ''.'' @ drop 1 ds @ ''e'' @ es))"

definition positive_to_string :: "rat \<Rightarrow> string" where
  "positive_to_string r =
     (let (a, b) = quotient_of r;
          ip = (if a div b = 0 then [] else dec_digits (nat (a div b)));
          fp = frac_digits (nat b) (nat (a mod b)) (nat b);
          ds = ip @ fp;
          lead = length (takeWhile (\<lambda>d. d = 0) ds);
          s = rev (dropWhile (\<lambda>d. d = 0) (rev (dropWhile (\<lambda>d. d = 0) ds)))
      in format_digits s (int (length ip) - int lead))"

fun number_to_string :: "jsnum \<Rightarrow> string" where
  "number_to_string NaN = ''NaN''"
| "number_to_string PosInfinity = ''Infinity''"
| "number_to_string NegInfinity = ''-Infinity''"
| "number_to_string (Fin r) =
     (if r = 0 then ''0''
      else if r < 0 then ''-'' @ positive_to_string (- r)
      else positive_to_string r)"

subsection \<open>ToString\<close>

fun join :: "string \<Rightarrow> string list \<Rightarrow> string" where
  "join sep [] = []"
| "join sep [x] = x"
| "join sep (x # y # ys) = x @ sep @ join sep (y # ys)"

text \<open>
  What string concatenation and \<^verbatim>\<open>JSON.parse\<close> make of a value: an array joins its
  elements with commas (undefined and null as the empty string), a plain object is
  \<^verbatim>\<open>[object Object]\<close>, an \<^verbatim>\<open>Error\<close> is its name and message.
\<close>

fun ToString :: "jsval \<Rightarrow> string" where
  "ToString JUndefined = ''undefined''"
| "ToString JNull = ''null''"
| "ToString (JBool b) = (if b then ''true'' else ''false'')"
| "ToString (JNum n) = number_to_string n"
| "ToString (JStr s) = s"
| "ToString (JArr xs) =
     join '','' (map (\<lambda>x. if x = JUndefined \<or> x = JNull then [] else ToString x) xs)"
| "ToString (JObj kvs) = ''[object Object]''"
| "ToString (JError n m) = (if m = [] then n else if n = [] then m else n @ '': '' @ m)"

section \<open>JSON.parse\<close>

text \<open>
  \<^verbatim>\<open>JSON.parse\<close> first turns its argument into a string, then reads one JSON value
  surrounded by optional white space; anything else is a \<^verbatim>\<open>SyntaxError\<close>, here \<open>None\<close>.
  The text is cut into tokens, and the tokens drive a stack of the arrays and objects
  that are still open.
\<close>

datatype token = LBrace | RBrace | LBrack | RBrack | Colon | Comma | TStr string | TVal jsval

definition is_digit :: "char \<Rightarrow> bool" where
  "is_digit c = (48 \<le> (of_char c :: nat) \<and> (of_char c :: nat) \<le> 57)"

definition digit_val :: "char \<Rightarrow> nat" where
  "digit_val c = of_char c - 48"

definition digits_val :: "string \<Rightarrow> nat" where
  "digits_val ds = foldl (\<lambda>a c. a * 10 + digit_val c) 0 ds"

definition hex_val :: "char \<Rightarrow> nat option" where
  "hex_val c =
     (let n = (of_char c :: nat) in
      if 48 \<le> n \<and> n \<le> 57 then Some (n - 48)
      else if 97 \<le> n \<and> n \<le> 102 then Some (n - 87)
      else if 65 \<le> n \<and> n \<le> 70 then Some (n - 55)
      else None)"

text \<open>The code unit of a \<^verbatim>\<open>\uXXXX\<close> escape, as the bytes that stand for it in a string.\<close>

definition encode_unit :: "nat \<Rightarrow> string" where
  "encode_unit u =
     (if u < 128 then [char_of u]
      else if u < 2048 then [char_of (192 + u div 64), char_of (128 + u mod 64)]
      else [char_of (224 + u div 4096), char_of (128 + (u div 64) mod 64),
            char_of (128 + u mod 64)])"

definition unescape :: "char \<Rightarrow> char option" where
  "unescape e =
     (if e = CHR 0x22 then Some (CHR 0x22)
      else if e = CHR 0x5C then Some (CHR 0x5C)
      else if e = CHR ''/'' then Some (CHR ''/'')
      else if e = CHR ''b'' then Some (CHR 0x08)
      else if e = CHR ''f'' then Some (CHR 0x0C)
      else if e = CHR ''n'' then Some (CHR 0x0A)
      else if e = CHR ''r'' then Some (CHR 0x0D)
      else if e = CHR ''t'' then Some (CHR 0x09)
      else None)"

text \<open>
  The characters after an opening quote, up to the closing one: the decoded string and
  the rest of the text. A control character, a bad escape or a missing closing quote
  is an error.
\<close>

fun lex_string :: "string \<Rightarrow> (string \<times> string) option" where
  "lex_string [] = None"
| "lex_string (c # cs) =
     (if c = CHR 0x22 then Some ([], cs)
      else if c = CHR 0x5C then
        (case cs of
           [] \<Rightarrow> None
         | e # cs' \<Rightarrow>
             if e = CHR ''u'' then
               (case cs' of
                  h1 # h2 # h3 # h4 # cs'' \<Rightarrow>
                    (case (hex_val h1, hex_val h2, hex_val h3, hex_val h4) of
                       (Some a, Some b, Some c, Some d) \<Rightarrow>
                         map_option
                           (\<lambda>(s, r). (encode_unit (((a * 16 + b) * 16 + c) * 16 + d) @ s, r))
                           (lex_string cs'')
                     | _ \<Rightarrow> None)
                | _ \<Rightarrow> None)
             else
               (case unescape e of
                  None \<Rightarrow> None
                | Some ch \<Rightarrow> map_option (\<lambda>(s, r). (ch # s, r)) (lex_string cs')))
      else if (of_char c :: nat) < 32 then None
      else map_option (\<lambda>(s, r). (c # s, r)) (lex_string cs))"

text \<open>
  A number: an optional minus sign, an integer part with no leading zero, an optional
  fraction and an optional exponent. The value is exact.
\<close>

definition lex_int :: "string \<Rightarrow> (string \<times> string) option" where
  "lex_int cs =
     (let ip = takeWhile is_digit cs in
      if ip = [] \<or> (1 < length ip \<and> take 1 ip = ''0'') then None
      else Some (ip, dropWhile is_digit cs))"

definition lex_frac :: "string \<Rightarrow> (string \<times> string) option" where
  "lex_frac cs =
     (if take 1 cs = ''.'' then
        (if takeWhile is_digit (drop 1 cs) = [] then None
         else Some (takeWhile is_digit (drop 1 cs), dropWhile is_digit (drop 1 cs)))
      else Some ([], cs))"

definition lex_exp :: "string \<Rightarrow> (int \<times> string) option" where
  "lex_exp cs =
     (if take 1 cs = ''e'' \<or> take 1 cs = ''E'' then
        (let neg = (take 1 (drop 1 cs) = ''-'');
             cs' = (if neg \<or> take 1 (drop 1 cs) = ''+'' then drop 2 cs else drop 1 cs);
             ep = takeWhile is_digit cs'
         in if ep = [] then None
            else Some (if neg then - int (digits_val ep) else int (digits_val ep),
                       dropWhile is_digit cs'))
      else Some (0, cs))"

definition lex_number :: "string \<Rightarrow> (rat \<times> string) option" where
  "lex_number cs =
     (let neg = (take 1 cs = ''-'') in
      case lex_int (if neg then drop 1 cs else cs) of
        None \<Rightarrow> None
      | Some (ip, cs2) \<Rightarrow>
          (case lex_frac cs2 of
             None \<Rightarrow> None
           | Some (fp, cs3) \<Rightarrow>
               (case lex_exp cs3 of
                  None \<Rightarrow> None
                | Some (e, cs4) \<Rightarrow>
                    (let m = of_nat (digits_val (ip @ fp)) / 10 ^ length fp;
                         v = (if e < 0 then m / 10 ^ nat (- e) else m * 10 ^ nat e)
                     in Some (if neg then - v else v, cs4)))))"

lemma dropWhile_shorter: "takeWhile P xs \<noteq> [] \<Longrightarrow> length (dropWhile P xs) < length xs"
  by (induction xs) (auto simp: le_imp_less_Suc length_dropWhile_le split: if_splits)

lemma lex_int_shorter: "lex_int cs = Some (ip, r) \<Longrightarrow> length r < length cs"
  by (auto simp: lex_int_def Let_def dropWhile_shorter split: if_splits)

lemma lex_frac_shorter: "lex_frac cs = Some (fp, r) \<Longrightarrow> length r \<le> length cs"
  using length_dropWhile_le [of is_digit "drop 1 cs"]
  by (auto simp: lex_frac_def split: if_splits)

lemma lex_exp_shorter: "lex_exp cs = Some (e, r) \<Longrightarrow> length r \<le> length cs"
  using length_dropWhile_le [of is_digit "drop 1 cs"] length_dropWhile_le [of is_digit "drop 2 cs"]
  by (auto simp: lex_exp_def Let_def split: if_splits)

lemma lex_number_shorter:
  assumes "lex_number cs = Some (v, r)"
  shows "length r < length cs"
proof -
  from assms obtain ip cs2 fp cs3 e where
    a: "lex_int (if take 1 cs = ''-'' then drop 1 cs else cs) = Some (ip, cs2)"
    and b: "lex_frac cs2 = Some (fp, cs3)" and c: "lex_exp cs3 = Some (e, r)"
    by (auto simp: lex_number_def Let_def split: option.splits)
  from lex_int_shorter [OF a] have "length cs2 < length cs"
    by (simp split: if_splits)
  with lex_frac_shorter [OF b] lex_exp_shorter [OF c] show ?thesis by linarith
qed

lemma lex_string_shorter: "lex_string cs = Some (s, r) \<Longrightarrow> length r \<le> length cs"
proof (induction "length cs" arbitrary: cs s r rule: less_induct)
  case less
  note IH = less.hyps
  show ?case
  proof (cases cs)
    case Nil
    with less.prems show ?thesis by simp
  next
    case (Cons c cs1)
    have step: "length r \<le> length cs"
      if "length t \<le> length cs1" and "lex_string t = Some (s', r)" for t s'
    proof -
      from that(1) Cons have "length t < length cs" by simp
      from IH [OF this that(2)] that(1) Cons show ?thesis by simp
    qed
    show ?thesis
    proof (cases "c = CHR 0x22")
      case True
      with less.prems Cons show ?thesis by simp
    next
      case nq: False
      show ?thesis
      proof (cases "c = CHR 0x5C")
        case False
        with nq less.prems Cons obtain s' where "lex_string cs1 = Some (s', r)"
          by (auto split: if_splits)
        from step [OF _ this] show ?thesis by simp
      next
        case bs: True
        show ?thesis
        proof (cases cs1)
          case Nil
          with bs nq less.prems Cons show ?thesis by simp
        next
          case c2: (Cons e cs2)
          show ?thesis
          proof (cases "e = CHR ''u''")
            case False
            with c2 bs nq less.prems Cons obtain s' where "lex_string cs2 = Some (s', r)"
              by (auto split: option.splits)
            from step [OF _ this] c2 show ?thesis by simp
          next
            case True
            with c2 bs nq less.prems Cons obtain s' h1 h2 h3 h4 cs3
              where "cs2 = h1 # h2 # h3 # h4 # cs3" and "lex_string cs3 = Some (s', r)"
              by (auto split: list.splits option.splits)
            from step [OF _ this(2)] c2 this(1) show ?thesis by simp
          qed
        qed
      qed
    qed
  qed
qed

text \<open>Tokens: white space is skipped, \<^verbatim>\<open>true\<close>, \<^verbatim>\<open>false\<close> and \<^verbatim>\<open>null\<close> are spelled out.\<close>

definition is_json_space :: "char \<Rightarrow> bool" where
  "is_json_space c = (c = CHR '' '' \<or> c = CHR 0x09 \<or> c = CHR 0x0A \<or> c = CHR 0x0D)"

function lex :: "string \<Rightarrow> token list option" where
  "lex [] = Some []"
| "lex (c # cs) =
     (if is_json_space c then lex cs
      else if c = CHR ''{'' then map_option (Cons LBrace) (lex cs)
      else if c = CHR ''}'' then map_option (Cons RBrace) (lex cs)
      else if c = CHR ''['' then map_option (Cons LBrack) (lex cs)
      else if c = CHR '']'' then map_option (Cons RBrack) (lex cs)
      else if c = CHR '':'' then map_option (Cons Colon) (lex cs)
      else if c = CHR '','' then map_option (Cons Comma) (lex cs)
      else if c = CHR 0x22 then
        (case lex_string cs of
           None \<Rightarrow> None
         | Some (s, rest) \<Rightarrow> map_option (Cons (TStr s)) (lex rest))
      else if c = CHR ''-'' \<or> is_digit c then
        (case lex_number (c # cs) of
           None \<Rightarrow> None
         | Some (r, rest) \<Rightarrow> map_option (Cons (TVal (JNum (Fin r)))) (lex rest))
      else if take 4 (c # cs) = ''true'' then
        map_option (Cons (TVal (JBool True))) (lex (drop 3 cs))
      else if take 5 (c # cs) = ''false'' then
        map_option (Cons (TVal (JBool False))) (lex (drop 4 cs))
      else if take 4 (c # cs) = ''null'' then
        map_option (Cons (TVal JNull)) (lex (drop 3 cs))
      else None)"
  by pat_completeness auto
termination
  apply (relation "measure length")
                apply simp_all
  subgoal for c cs x2 s rest using lex_string_shorter [of cs s rest] by simp
  subgoal for c cs x2 r rest using lex_number_shorter [of "c # cs" r rest] by simp
  done

declare lex.simps [simp del]

subsection \<open>Building the value\<close>

text \<open>
  An object lists its properties as JavaScript enumerates them: the array indices
  (canonical numerals below \<open>2^32 - 1\<close>) in ascending order first, then the other keys in
  the order of their first appearance. A repeated key keeps its place and takes the
  last value.
\<close>

definition is_array_index :: "string \<Rightarrow> bool" where
  "is_array_index k =
     (k \<noteq> [] \<and> list_all is_digit k \<and> (k = ''0'' \<or> take 1 k \<noteq> ''0'')
      \<and> digits_val k < 4294967295)"

definition obj_put :: "string \<Rightarrow> jsval \<Rightarrow> (string \<times> jsval) list \<Rightarrow> (string \<times> jsval) list" where
  "obj_put k v ms =
     (if k \<in> set (map fst ms) then map (\<lambda>(k', v'). if k' = k then (k', v) else (k', v')) ms
      else if is_array_index k then
        takeWhile (\<lambda>(k', v'). is_array_index k' \<and> digits_val k' < digits_val k) ms
          @ [(k, v)]
          @ dropWhile (\<lambda>(k', v'). is_array_index k' \<and> digits_val k' < digits_val k) ms
      else ms @ [(k, v)])"

datatype frame =
    FArr "jsval list"
  | FObj "(string \<times> jsval) list"
  | FKey "(string \<times> jsval) list" string

datatype mode =
    WantValue | WantValueOrClose | WantKey | WantKeyOrClose | WantColon | AfterValue
  | Done jsval

fun value_done :: "jsval \<Rightarrow> frame list \<Rightarrow> (mode \<times> frame list) option" where
  "value_done v [] = Some (Done v, [])"
| "value_done v (FArr xs # st) = Some (AfterValue, FArr (xs @ [v]) # st)"
| "value_done v (FKey ms k # st) = Some (AfterValue, FObj (obj_put k v ms) # st)"
| "value_done v (FObj ms # st) = None"

definition start_value :: "token \<Rightarrow> frame list \<Rightarrow> (mode \<times> frame list) option" where
  "start_value t st =
     (case t of
        TVal v \<Rightarrow> value_done v st
      | TStr s \<Rightarrow> value_done (JStr s) st
      | LBrack \<Rightarrow> Some (WantValueOrClose, FArr [] # st)
      | LBrace \<Rightarrow> Some (WantKeyOrClose, FObj [] # st)
      | _ \<Rightarrow> None)"

definition start_key :: "token \<Rightarrow> frame list \<Rightarrow> (mode \<times> frame list) option" where
  "start_key t st =
     (case (t, st) of
        (TStr k, FObj ms # st') \<Rightarrow> Some (WantColon, FKey ms k # st')
      | _ \<Rightarrow> None)"

definition close_array :: "frame list \<Rightarrow> (mode \<times> frame list) option" where
  "close_array st = (case st of FArr xs # st' \<Rightarrow> value_done (JArr xs) st' | _ \<Rightarrow> None)"

definition close_object :: "frame list \<Rightarrow> (mode \<times> frame list) option" where
  "close_object st = (case st of FObj ms # st' \<Rightarrow> value_done (JObj ms) st' | _ \<Rightarrow> None)"

fun step :: "mode \<Rightarrow> frame list \<Rightarrow> token \<Rightarrow> (mode \<times> frame list) option" where
  "step WantValue st t = start_value t st"
| "step WantValueOrClose st t = (if t = RBrack then close_array st else start_value t st)"
| "step WantKey st t = start_key t st"
| "step WantKeyOrClose st t = (if t = RBrace then close_object st else start_key t st)"
| "step WantColon st t = (if t = Colon then Some (WantValue, st) else None)"
| "step AfterValue st t =
     (case t of
        Comma \<Rightarrow> (case st of
                    FArr xs # st' \<Rightarrow> Some (WantValue, st)
                  | FObj ms # st' \<Rightarrow> Some (WantKey, st)
                  | _ \<Rightarrow> None)
      | RBrack \<Rightarrow> close_array st
      | RBrace \<Rightarrow> close_object st
      | _ \<Rightarrow> None)"
| "step (Done v) st t = None"

fun run :: "mode \<Rightarrow> frame list \<Rightarrow> token list \<Rightarrow> jsval option" where
  "run m st [] = (case m of Done v \<Rightarrow> Some v | _ \<Rightarrow> None)"
| "run m st (t # ts) = (case step m st t of None \<Rightarrow> None | Some (m', st') \<Rightarrow> run m' st' ts)"

definition JSON_parse :: "jsval \<Rightarrow> jsval option" where
  "JSON_parse text = (case lex (ToString text) of None \<Rightarrow> None | Some ts \<Rightarrow> run WantValue [] ts)"

section \<open>JSON.stringify and parseInt\<close>

definition hex_char :: "nat \<Rightarrow> char" where
  "hex_char d = ''0123456789abcdef'' ! d"

definition hex4 :: "nat \<Rightarrow> string" where
  "hex4 u = [hex_char (u div 4096), hex_char ((u div 256) mod 16), hex_char ((u div 16) mod 16),
             hex_char (u mod 16)]"

text \<open>
  The surrogate code unit at the head of a string, that is the three bytes
  \<open>0xED, 0xA0..0xBF, _\<close>; \<open>0\<close> when the string starts otherwise.
\<close>

definition surrogate_at :: "string \<Rightarrow> nat" where
  "surrogate_at cs =
     (if 3 \<le> length cs \<and> cs ! 0 = CHR 0xED
         \<and> 160 \<le> (of_char (cs ! 1) :: nat) \<and> (of_char (cs ! 1) :: nat) \<le> 191
      then 53248 + (of_char (cs ! 1) - 128) * 64 + (of_char (cs ! 2) - 128)
      else 0)"

text \<open>
  The inside of a quoted JSON string: the quote, the backslash and the control characters
  are escaped, and so is a surrogate with no partner (a high one, below \<open>0xDC00\<close>, pairs
  with a low one right after it); every other character stands for itself.
\<close>

fun quote_chars :: "string \<Rightarrow> string" where
  "quote_chars [] = []"
| "quote_chars (c # cs) =
     (if c = CHR 0x22 then [CHR 0x5C, CHR 0x22] @ quote_chars cs
      else if c = CHR 0x5C then [CHR 0x5C, CHR 0x5C] @ quote_chars cs
      else if c = CHR 0x08 then [CHR 0x5C, CHR ''b''] @ quote_chars cs
      else if c = CHR 0x0C then [CHR 0x5C, CHR ''f''] @ quote_chars cs
      else if c = CHR 0x0A then [CHR 0x5C, CHR ''n''] @ quote_chars cs
      else if c = CHR 0x0D then [CHR 0x5C, CHR ''r''] @ quote_chars cs
      else if c = CHR 0x09 then [CHR 0x5C, CHR ''t''] @ quote_chars cs
      else if (of_char c :: nat) < 32 then [CHR 0x5C, CHR ''u''] @ hex4 (of_char c) @ quote_chars cs
      else if surrogate_at (c # cs) = 0 then c # quote_chars cs
      else if surrogate_at (c # cs) < 56320 \<and> 56320 \<le> surrogate_at (drop 2 cs)
      then take 6 (c # cs) @ quote_chars (drop 5 cs)
      else [CHR 0x5C, CHR ''u''] @ hex4 (surrogate_at (c # cs)) @ quote_chars (drop 2 cs))"

declare quote_chars.simps [simp del]

definition quote :: "string \<Rightarrow> string" where
  "quote s = [CHR 0x22] @ quote_chars s @ [CHR 0x22]"

text \<open>
  \<^verbatim>\<open>JSON.stringify(v)\<close>: the text, or \<open>None\<close> where JavaScript returns undefined. In an
  array undefined prints as \<^verbatim>\<open>null\<close>, in an object its property is left out; NaN and
  the infinities print as \<^verbatim>\<open>null\<close>; an \<^verbatim>\<open>Error\<close> has nothing to enumerate.
\<close>

fun JSON_stringify :: "jsval \<Rightarrow> string option"
  and stringify_elements :: "jsval list \<Rightarrow> string list"
  and stringify_properties :: "(string \<times> jsval) list \<Rightarrow> string list" where
  "JSON_stringify JUndefined = None"
| "JSON_stringify JNull = Some ''null''"
| "JSON_stringify (JBool b) = Some (if b then ''true'' else ''false'')"
| "JSON_stringify (JNum (Fin r)) = Some (number_to_string (Fin r))"
| "JSON_stringify (JNum NaN) = Some ''null''"
| "JSON_stringify (JNum PosInfinity) = Some ''null''"
| "JSON_stringify (JNum NegInfinity) = Some ''null''"
| "JSON_stringify (JStr s) = Some (quote s)"
| "JSON_stringify (JArr xs) = Some (''['' @ join '','' (stringify_elements xs) @ '']'')"
| "JSON_stringify (JObj kvs) = Some (''{'' @ join '','' (stringify_properties kvs) @ ''}'')"
| "JSON_stringify (JError n m) = Some ''{}''"
| "stringify_elements [] = []"
| "stringify_elements (x # xs) =
     (case JSON_stringify x of None \<Rightarrow> ''null'' | Some t \<Rightarrow> t) # stringify_elements xs"
| "stringify_properties [] = []"
| "stringify_properties ((k, v) # kvs) =
     (case JSON_stringify v of
        None \<Rightarrow> stringify_properties kvs
      | Some t \<Rightarrow> (quote k @ '':'' @ t) # stringify_properties kvs)"

text \<open>\<^verbatim>\<open>"..." + JSON.stringify(v)\<close>\<close>

definition stringified :: "jsval \<Rightarrow> string" where
  "stringified v = (case JSON_stringify v of None \<Rightarrow> ''undefined'' | Some t \<Rightarrow> t)"

text \<open>
  The white space that \<^verbatim>\<open>parseInt\<close> skips: tab, line feed, vertical tab, form feed,
  carriage return, space, and the bytes of U+00A0, U+1680, U+2000 to U+200A, U+2028,
  U+2029, U+202F, U+205F, U+3000 and U+FEFF.
\<close>

definition white_space :: "string list" where
  "white_space =
     map (\<lambda>c. [c]) [CHR 0x09, CHR 0x0A, CHR 0x0B, CHR 0x0C, CHR 0x0D, CHR 0x20]
     @ [[CHR 0xC2, CHR 0xA0], [CHR 0xE1, CHR 0x9A, CHR 0x80]]
     @ map (\<lambda>c. [CHR 0xE2, CHR 0x80, c])
         [CHR 0x80, CHR 0x81, CHR 0x82, CHR 0x83, CHR 0x84, CHR 0x85, CHR 0x86, CHR 0x87,
          CHR 0x88, CHR 0x89, CHR 0x8A, CHR 0xA8, CHR 0xA9, CHR 0xAF]
     @ [[CHR 0xE2, CHR 0x81, CHR 0x9F], [CHR 0xE3, CHR 0x80, CHR 0x80],
        [CHR 0xEF, CHR 0xBB, CHR 0xBF]]"

fun skip_white_space :: "string \<Rightarrow> string" where
  "skip_white_space [] = []"
| "skip_white_space (c # cs) =
     (case filter (\<lambda>ws. take (length ws) (c # cs) = ws) white_space of
        [] \<Rightarrow> c # cs
      | ws # _ \<Rightarrow> skip_white_space (drop (length ws - 1) cs))"

text \<open>
  \<^verbatim>\<open>parseInt(x)\<close> with no radix: the string form of \<open>x\<close> without leading white space, an
  optional sign, an optional \<^verbatim>\<open>0x\<close> that selects base 16, then as many digits as there
  are; with no digit the result is NaN.
\<close>

definition parseInt :: "jsval \<Rightarrow> jsnum" where
  "parseInt x =
     (let s0 = skip_white_space (ToString x);
          neg = (take 1 s0 = ''-'');
          s1 = (if neg \<or> take 1 s0 = ''+'' then drop 1 s0 else s0);
          hex = (take 2 s1 = ''0x'' \<or> take 2 s1 = ''0X'');
          s2 = (if hex then drop 2 s1 else s1);
          z = (if hex then takeWhile (\<lambda>c. hex_val c \<noteq> None) s2 else takeWhile is_digit s2);
          n = (if hex then foldl (\<lambda>a c. a * 16 + the (hex_val c)) 0 z else digits_val z)
      in if z = [] then NaN else Fin (if neg then - of_nat n else of_nat n))"

text \<open>\<^verbatim>\<open>x - 1\<close> on a number\<close>

fun minus_one :: "jsnum \<Rightarrow> jsnum" where
  "minus_one (Fin r) = Fin (r - 1)"
| "minus_one n = n"

text \<open>
  Reading one of the properties the source reads. None of them is inherited from a
  prototype, so a string, number, boolean, array or \<^verbatim>\<open>Error\<close> has it undefined; reading
  a property of undefined or null throws a \<^verbatim>\<open>TypeError\<close> (\<open>Inl\<close>).
\<close>

datatype property = simulationId | simulationData | NumAgents

fun property_name :: "property \<Rightarrow> string" where
  "property_name simulationId = ''simulationId''"
| "property_name simulationData = ''simulationData''"
| "property_name NumAgents = ''NumAgents''"

fun get_property :: "jsval \<Rightarrow> property \<Rightarrow> jsval + jsval" where
  "get_property JUndefined k =
     Inl (JError ''TypeError''
            (''Cannot read properties of undefined (reading '' @ [CHR 0x27] @ property_name k
               @ [CHR 0x27] @ '')''))"
| "get_property JNull k =
     Inl (JError ''TypeError''
            (''Cannot read properties of null (reading '' @ [CHR 0x27] @ property_name k
               @ [CHR 0x27] @ '')''))"
| "get_property (JObj kvs) k =
     Inr (case map_of kvs (property_name k) of Some v \<Rightarrow> v | None \<Rightarrow> JUndefined)"
| "get_property v k = Inr JUndefined"

section \<open>The network and promises\<close>

text \<open>
  One call of the \<^verbatim>\<open>request\<close> library: the verb (\<^verbatim>\<open>request.get\<close>, \<^verbatim>\<open>.post\<close>,
  \<^verbatim>\<open>.put\<close>) and the options object. The field \<open>requestBody\<close> is the option
  \<^verbatim>\<open>body\<close>; an option that the source leaves out is \<open>JUndefined\<close> (the body) or
  \<open>False\<close> (\<^verbatim>\<open>json\<close>).
\<close>

datatype http_method = GET | POST | PUT

record request =
  verb :: http_method
  url :: string
  requestBody :: jsval
  json :: bool

text \<open>
  The library calls back once with \<^verbatim>\<open>(error, response, body)\<close>. The response is an
  object with a numeric \<^verbatim>\<open>statusCode\<close>, or undefined (\<open>None\<close>) when no response arrived.
\<close>

record response =
  statusCode :: int

datatype reply = Reply jsval "response option" jsval

text \<open>
  What a run has done so far: the value it left in
  \<^verbatim>\<open>process.env.NODE_TLS_REJECT_UNAUTHORIZED\<close> and the requests it issued, oldest first.
\<close>

record state =
  NODE_TLS_REJECT_UNAUTHORIZED :: "string option"
  sent :: "request list"

text \<open>
  What the module does not decide: the host name in \<^verbatim>\<open>process.env.SIMULATION_SERVER\<close>
  and the remote service, which answers a request as it likes, knowing everything done
  so far.
\<close>

record world =
  SIMULATION_SERVER :: jsval
  remote :: "state \<Rightarrow> request \<Rightarrow> reply"

definition apiBase :: "world \<Rightarrow> string" where
  "apiBase w = ''https://'' @ ToString (SIMULATION_SERVER w) @ ''/api/''"

text \<open>Issuing a request records it and yields the arguments of the callback.\<close>

definition send :: "world \<Rightarrow> request \<Rightarrow> state \<Rightarrow> reply \<times> state" where
  "send w req s = (remote w s req, s\<lparr>sent := sent s @ [req]\<rparr>)"

text \<open>
  A promise, once everything it waits for has happened: fulfilled, rejected, or still
  pending because the callback that should settle it threw instead (the exception goes
  nowhere and is not recorded). \<^verbatim>\<open>resolve\<close> and \<^verbatim>\<open>reject\<close> settle a pending
  promise and leave a settled one alone.
\<close>

datatype outcome = Fulfilled jsval | Rejected jsval | Pending

fun resolve :: "jsval \<Rightarrow> outcome \<Rightarrow> outcome" where
  "resolve v Pending = Fulfilled v"
| "resolve v p = p"

fun reject :: "jsval \<Rightarrow> outcome \<Rightarrow> outcome" where
  "reject e Pending = Rejected e"
| "reject e p = p"

text \<open>
  A promise-returning call is run to the point where nothing more can happen; it
  yields the promise's outcome and the state reached. \<^verbatim>\<open>p.then(f)\<close> runs \<open>f\<close> on the
  value of a fulfilled \<open>p\<close>, \<^verbatim>\<open>p.catch(f)\<close> runs \<open>f\<close> on the reason of a rejected one, and
  the new promise takes the outcome of \<open>f\<close>: the value it returns, the outcome of the
  promise it returns, or what it throws. Neither handler runs while \<open>p\<close> is pending.
\<close>

type_synonym 'st promise = "'st \<Rightarrow> outcome \<times> 'st"

definition promise_then :: "'st promise \<Rightarrow> (jsval \<Rightarrow> 'st promise) \<Rightarrow> 'st promise" where
  "promise_then p f st =
     (case p st of
        (Fulfilled v, st') \<Rightarrow> f v st'
      | (Rejected e, st') \<Rightarrow> (Rejected e, st')
      | (Pending, st') \<Rightarrow> (Pending, st'))"

definition promise_catch :: "'st promise \<Rightarrow> (jsval \<Rightarrow> 'st promise) \<Rightarrow> 'st promise" where
  "promise_catch p f st =
     (case p st of
        (Fulfilled v, st') \<Rightarrow> (Fulfilled v, st')
      | (Rejected e, st') \<Rightarrow> f e st'
      | (Pending, st') \<Rightarrow> (Pending, st'))"

text \<open>A handler that throws.\<close>

definition throw :: "jsval \<Rightarrow> 'st promise" where
  "throw e st = (Rejected e, st)"

text \<open>
  \<^verbatim>\<open>new Promise((resolve, reject) => ...)\<close> around a chain of handlers: the handlers
  run on the state paired with the new promise, which they settle by calling
  \<open>call_resolve\<close> and \<open>call_reject\<close>; both return undefined. What the chain itself
  comes to is dropped.
\<close>

definition call_resolve :: "jsval \<Rightarrow> (outcome \<times> state) promise" where
  "call_resolve v = (\<lambda>(p, s). (Fulfilled JUndefined, (resolve v p, s)))"

definition call_reject :: "jsval \<Rightarrow> (outcome \<times> state) promise" where
  "call_reject e = (\<lambda>(p, s). (Fulfilled JUndefined, (reject e p, s)))"

definition inside :: "state promise \<Rightarrow> (outcome \<times> state) promise" where
  "inside f = (\<lambda>(p, s). case f s of (r, s') \<Rightarrow> (r, (p, s')))"

definition new_Promise :: "(outcome \<times> state) promise \<Rightarrow> state promise" where
  "new_Promise executor s = snd (executor (Pending, s))"

section \<open>The client\<close>

definition AgentAction :: "(string \<times> jsval) list" where
  "AgentAction =
     [(''moveForward'', JStr ''moveForward''),
      (''turnLeft'', JStr ''turnLeft''),
      (''turnRight'', JStr ''turnRight''),
      (''pickUp'', JStr ''pickUp''),
      (''drop'', JStr ''drop''),
      (''idle'', JStr ''idle'')]"

definition Object_values :: "(string \<times> jsval) list \<Rightarrow> jsval list" where
  "Object_values kvs = map snd kvs"

text \<open>
  \<^verbatim>\<open>xs.includes(v)\<close> on a list of strings: only an equal string is found.
\<close>

definition Array_includes :: "jsval list \<Rightarrow> jsval \<Rightarrow> bool" where
  "Array_includes xs v = (v \<in> set xs)"

subsection \<open>Simulation lifecycle\<close>

text \<open>
  Each function makes a promise, issues one request and settles the promise in the
  callback of the request. The callbacks are the functions \<open>*_callback\<close> below; they
  take the promise as it is when the reply arrives and give it back as they leave it.
\<close>

fun createSimulation_callback :: "outcome \<Rightarrow> reply \<Rightarrow> outcome" where
  "createSimulation_callback p (Reply error response body) =
     (if (case response of Some r \<Rightarrow> statusCode r = 201 \<or> statusCode r = 200 | None \<Rightarrow> False)
      then resolve body p
      else reject (js_or error body) p)"

definition createSimulation :: "world \<Rightarrow> jsval \<Rightarrow> state promise" where
  "createSimulation w env s =
     (let s1 = s\<lparr>NODE_TLS_REJECT_UNAUTHORIZED := Some ''0''\<rparr>;
          createUrl = apiBase w @ ''simulations/create'';
          createBody = JObj [(''env_name'', env)];
          postInput = \<lparr>verb = POST, url = createUrl, requestBody = createBody, json = True\<rparr>
      in case send w postInput s1 of
           (rep, s2) \<Rightarrow> (createSimulation_callback Pending rep, s2))"

text \<open>
  \<^verbatim>\<open>startSimulation\<close> and \<^verbatim>\<open>getAgentStatus\<close> read \<^verbatim>\<open>response.statusCode\<close> with no
  test of \<^verbatim>\<open>response\<close>: without a response the callback throws a \<^verbatim>\<open>TypeError\<close> and the
  promise stays as it was.
\<close>

fun startSimulation_callback :: "outcome \<Rightarrow> reply \<Rightarrow> outcome" where
  "startSimulation_callback p (Reply error response body) =
     (case response of
        None \<Rightarrow> p
      | Some r \<Rightarrow> if statusCode r = 200 then resolve body p else reject body p)"

definition startSimulation :: "world \<Rightarrow> jsval \<Rightarrow> state promise" where
  "startSimulation w simulation s =
     (let s1 = s\<lparr>NODE_TLS_REJECT_UNAUTHORIZED := Some ''0''\<rparr>;
          startUrl = apiBase w @ ''simulations/'' @ ToString simulation @ ''/start''
      in case send w \<lparr>verb = PUT, url = startUrl, requestBody = JUndefined, json = False\<rparr> s1 of
           (rep, s2) \<Rightarrow> (startSimulation_callback Pending rep, s2))"

fun getAgentStatus_callback :: "outcome \<Rightarrow> reply \<Rightarrow> outcome" where
  "getAgentStatus_callback p (Reply error response body) =
     (case response of
        None \<Rightarrow> p
      | Some r \<Rightarrow> if statusCode r = 200 then resolve body p else reject (js_or error body) p)"

definition getAgentStatus :: "world \<Rightarrow> jsval \<Rightarrow> jsval \<Rightarrow> state promise" where
  "getAgentStatus w simulation agent s =
     (let s1 = s\<lparr>NODE_TLS_REJECT_UNAUTHORIZED := Some ''0''\<rparr>;
          statusUrl = apiBase w @ ''simulations/'' @ ToString simulation @ ''/agents/''
                        @ ToString agent @ ''/status''
      in case send w \<lparr>verb = GET, url = statusUrl, requestBody = JUndefined, json = False\<rparr> s1 of
           (rep, s2) \<Rightarrow> (getAgentStatus_callback Pending rep, s2))"

subsection \<open>Agent action submission\<close>

text \<open>
  \<^verbatim>\<open>agent == 'undefined'\<close>: a string equals the literal when it is the same string, an
  array or object when its string form is; undefined, null, booleans and numbers never do
  (as a number the literal is NaN).
\<close>

fun eq_undefined_literal :: "jsval \<Rightarrow> bool" where
  "eq_undefined_literal (JStr s) = (s = ''undefined'')"
| "eq_undefined_literal (JArr xs) = (ToString (JArr xs) = ''undefined'')"
| "eq_undefined_literal (JObj kvs) = (ToString (JObj kvs) = ''undefined'')"
| "eq_undefined_literal (JError n m) = (ToString (JError n m) = ''undefined'')"
| "eq_undefined_literal v = False"

text \<open>\<^verbatim>\<open>agentMode == null\<close>\<close>

definition eq_null :: "jsval \<Rightarrow> bool" where
  "eq_null v = (v = JNull \<or> v = JUndefined)"

text \<open>
  \<^verbatim>\<open>response == 400\<close> compares the response itself with a number: undefined is not
  equal to a number, and the response object turns into the string
  \<^verbatim>\<open>[object Object]\<close>, as a number NaN, which is equal to none.
\<close>

definition response_eq_number :: "response option \<Rightarrow> int \<Rightarrow> bool" where
  "response_eq_number response n = False"

text \<open>
  The callback of \<^verbatim>\<open>request.post\<close>. In its last branch \<^verbatim>\<open>response.statusCode\<close> throws
  when there is no response.
\<close>

fun performAgentAction_callback :: "jsval \<Rightarrow> jsval \<Rightarrow> outcome \<Rightarrow> reply \<Rightarrow> outcome" where
  "performAgentAction_callback simulation action p (Reply error response body) =
     (if (case response of Some r \<Rightarrow> statusCode r = 201 \<or> statusCode r = 200 | None \<Rightarrow> False)
      then resolve body p
      else if response_eq_number response 400
      then reject (JError ''Error''
                     (''400 - Invalid actionid or simulationid '' @ ToString action @ '', ''
                        @ ToString simulation)) p
      else if response_eq_number response 415
      then reject (JError ''Error'' ''415 - no JSON specified'') p
      else
        (case response of
           None \<Rightarrow> p
         | Some r \<Rightarrow>
             reject (JStr (ToString (JNum (Fin (of_int (statusCode r)))) @ '' Error : ''
                             @ ToString error)) p))"

text \<open>
  The four checks call \<^verbatim>\<open>reject\<close> and go on: the request is built and posted whatever
  they found.
\<close>

definition performAgentAction ::
  "world \<Rightarrow> jsval \<Rightarrow> jsval \<Rightarrow> jsval \<Rightarrow> jsval \<Rightarrow> state promise" where
  "performAgentAction w simulation agent action agentMode s =
     (let p0 = Pending;
          p1 = (if \<not> truthy simulation \<or> \<not> Number_isInteger simulation
                then reject (js_or (JStr (''Invalid Simulation ID '' @ ToString simulation))
                                   (JStr ''null'')) p0
                else p0);
          p2 = (if eq_undefined_literal agent \<or> \<not> Number_isInteger agent
                then reject (js_or (JStr (''Invalid Agent ID '' @ ToString agent))
                                   (JStr ''null'')) p1
                else p1);
          p3 = (if \<not> truthy action \<or> \<not> Array_includes (Object_values AgentAction) action
                then reject (js_or (JStr (''Invalid action '' @ ToString action))
                                   (JStr ''null'')) p2
                else p2);
          p4 = (if eq_null agentMode
                then reject (js_or (JStr (''Invalid action '' @ ToString agentMode))
                                   (JStr ''null'')) p3
                else p3);
          actionUrl = apiBase w @ ''simulations/'' @ ToString simulation @ ''/agents/''
                        @ ToString agent @ ''/action'';
          postBody = JObj [(''action'', action), (''mode'', agentMode)];
          postInput = \<lparr>verb = POST, url = actionUrl, requestBody = postBody, json = True\<rparr>
      in case send w postInput s of
           (rep, s') \<Rightarrow> (performAgentAction_callback simulation action p4 rep, s'))"

subsection \<open>Step advancement\<close>

fun simulateStep_callback :: "outcome \<Rightarrow> reply \<Rightarrow> outcome" where
  "simulateStep_callback p (Reply error response body) =
     (if (case response of Some r \<Rightarrow> statusCode r = 200 | None \<Rightarrow> False)
      then resolve body p
      else
        (case response of
           None \<Rightarrow> p
         | Some r \<Rightarrow>
             reject (JStr (ToString (JNum (Fin (of_int (statusCode r)))) @ '' Error : ''
                             @ ToString error)) p))"

definition simulateStep :: "world \<Rightarrow> jsval \<Rightarrow> state promise" where
  "simulateStep w simulation s =
     (let p0 = Pending;
          p1 = (if \<not> truthy simulation \<or> \<not> Number_isInteger simulation
                then reject (js_or (JStr (''Invalid Simulation ID '' @ ToString simulation))
                                   (JStr ''null'')) p0
                else p0);
          stepUrl = apiBase w @ ''simulations/'' @ ToString simulation @ ''/step'';
          postBody = JObj [];
          postInput = \<lparr>verb = PUT, url = stepUrl, requestBody = postBody, json = True\<rparr>
      in case send w postInput s of
           (rep, s') \<Rightarrow> (simulateStep_callback p1 rep, s'))"

subsection \<open>The action cycle\<close>

text \<open>The calls of \<^verbatim>\<open>console.log\<close> are left out: they change nothing that is modelled.\<close>

definition simulateAgentAction ::
  "world \<Rightarrow> jsval \<Rightarrow> jsval \<Rightarrow> jsval \<Rightarrow> jsval \<Rightarrow> state promise" where
  "simulateAgentAction w simulation agent action agentMode =
     new_Promise
       (promise_catch
          (promise_then (inside (performAgentAction w simulation agent action agentMode))
             (\<lambda>actionOut.
                promise_catch
                  (promise_then (inside (simulateStep w simulation))
                     (\<lambda>stepOut.
                        promise_catch
                          (promise_then (inside (getAgentStatus w simulation agent))
                             (\<lambda>agentStatus. call_resolve agentStatus))
                          (\<lambda>statusError. call_reject statusError)))
                  (\<lambda>stepError. call_reject stepError)))
          (\<lambda>actionError. call_reject actionError))"

subsection \<open>Response normalisation\<close>

text \<open>
  \<^verbatim>\<open>getObject(data)\<close>: \<^verbatim>\<open>try { return JSON.parse(data); } catch(parseErr) { return data; }\<close>
\<close>

definition getObject :: "jsval \<Rightarrow> jsval" where
  "getObject data = (case JSON_parse data of Some v \<Rightarrow> v | None \<Rightarrow> data)"

subsection \<open>The action sequence\<close>

text \<open>
  What a call hands back: a plain value, or a promise with its outcome. A handler that
  returns a promise passes that promise's outcome on; one that returns a plain value
  fulfils with it.
\<close>

datatype returned = Returns jsval | ReturnsPromise outcome

fun adopt :: "returned \<times> 'st \<Rightarrow> outcome \<times> 'st" where
  "adopt (Returns v, st) = (Fulfilled v, st)"
| "adopt (ReturnsPromise r, st) = (r, st)"

text \<open>
  The inner function \<^verbatim>\<open>performAction\<close>; the variable \<^verbatim>\<open>index\<close> that it shares with
  \<^verbatim>\<open>executeActionArray\<close> is a parameter. \<^verbatim>\<open>actions[index++]\<close> reads within the list.
\<close>

function performAction ::
  "world \<Rightarrow> jsval \<Rightarrow> jsval \<Rightarrow> jsval list \<Rightarrow> jsval \<Rightarrow> nat \<Rightarrow> state \<Rightarrow> returned \<times> state" where
  "performAction w simulation agent actions mode index s =
     (if index < length actions then
        (case promise_then (simulateAgentAction w simulation agent (actions ! index) mode)
                (\<lambda>_ s'. adopt (performAction w simulation agent actions mode (Suc index) s')) s of
           (r, s'') \<Rightarrow> (ReturnsPromise r, s''))
      else (Returns JUndefined, s))"
  by pat_completeness auto
termination
  by (relation "measure (\<lambda>(w, simulation, agent, actions, mode, index, s). length actions - index)")
    auto

declare performAction.simps [simp del]

definition executeActionArray ::
  "world \<Rightarrow> jsval \<Rightarrow> jsval \<Rightarrow> jsval list \<Rightarrow> jsval \<Rightarrow> state \<Rightarrow> returned \<times> state" where
  "executeActionArray w simulation agent actions mode s =
     performAction w simulation agent actions mode 0 s"

subsection \<open>Establishing a simulation\<close>

text \<open>
  \<^verbatim>\<open>init(env)\<close>. The parameter occurs in a log line only. Reading
  \<^verbatim>\<open>createResponse.simulationId\<close> or \<^verbatim>\<open>createResponse.simulationData.NumAgents\<close>
  can throw inside a handler, which rejects the promise that the handler's
  \<^verbatim>\<open>then\<close> made and so reaches the \<^verbatim>\<open>catch\<close> that follows it.
\<close>

definition init :: "world \<Rightarrow> jsval \<Rightarrow> state promise" where
  "init w env =
     new_Promise
       (promise_catch
          (promise_then (inside (createSimulation w (JStr ''HW1'')))
             (\<lambda>createResponse.
                case get_property createResponse simulationId of
                  Inl exn \<Rightarrow> throw exn
                | Inr createResponse_simulationId \<Rightarrow>
                    promise_catch
                      (promise_then (inside (startSimulation w createResponse_simulationId))
                         (\<lambda>startResponse.
                            case get_property createResponse simulationData of
                              Inl exn \<Rightarrow> throw exn
                            | Inr createResponse_simulationData \<Rightarrow>
                                (case get_property createResponse_simulationData NumAgents of
                                   Inl exn \<Rightarrow> throw exn
                                 | Inr numAgents \<Rightarrow>
                                     (let response =
                                            [(''simulationId'', createResponse_simulationId),
                                             (''agents'', JNum (parseInt numAgents)),
                                             (''createResponse'', getObject createResponse),
                                             (''startResponse'', getObject startResponse)]
                                      in promise_catch
                                           (promise_then
                                              (inside (getAgentStatus w createResponse_simulationId
                                                         (JNum (minus_one (parseInt numAgents)))))
                                              (\<lambda>status.
                                                 call_resolve
                                                   (JObj (response
                                                            @ [(''agentStatus'', getObject status)]))))
                                           (\<lambda>error.
                                              call_reject
                                                (JStr (''Error getting agent status''
                                                         @ stringified error)))))))
                      (\<lambda>error. call_reject (JStr (''Error starting agent '' @ stringified error)))))
          (\<lambda>error. call_reject (JStr (''Error creating Simulation '' @ stringified error))))"

section \<open>The requests of the interface\<close>

text \<open>The request that each operation issues, by method, path and body.\<close>

definition create_request :: "world \<Rightarrow> jsval \<Rightarrow> request" where
  "create_request w env =
     \<lparr>verb = POST, url = apiBase w @ ''simulations/create'',
      requestBody = JObj [(''env_name'', env)], json = True\<rparr>"

definition start_request :: "world \<Rightarrow> jsval \<Rightarrow> request" where
  "start_request w simulation =
     \<lparr>verb = PUT, url = apiBase w @ ''simulations/'' @ ToString simulation @ ''/start'',
      requestBody = JUndefined, json = False\<rparr>"

definition status_request :: "world \<Rightarrow> jsval \<Rightarrow> jsval \<Rightarrow> request" where
  "status_request w simulation agent =
     \<lparr>verb = GET,
      url = apiBase w @ ''simulations/'' @ ToString simulation @ ''/agents/'' @ ToString agent
              @ ''/status'',
      requestBody = JUndefined, json = False\<rparr>"

definition action_request :: "world \<Rightarrow> jsval \<Rightarrow> jsval \<Rightarrow> jsval \<Rightarrow> jsval \<Rightarrow> request" where
  "action_request w simulation agent action mode =
     \<lparr>verb = POST,
      url = apiBase w @ ''simulations/'' @ ToString simulation @ ''/agents/'' @ ToString agent
              @ ''/action'',
      requestBody = JObj [(''action'', action), (''mode'', mode)], json = True\<rparr>"

definition step_request :: "world \<Rightarrow> jsval \<Rightarrow> request" where
  "step_request w simulation =
     \<lparr>verb = PUT, url = apiBase w @ ''simulations/'' @ ToString simulation @ ''/step'',
      requestBody = JObj [], json = True\<rparr>"

text \<open>
  A service that gives every request the same answer, and the state of a process that has
  done nothing yet.
\<close>

definition answering :: "int \<Rightarrow> jsval \<Rightarrow> world" where
  "answering code b =
     \<lparr>SIMULATION_SERVER = JStr ''localhost'',
      remote = (\<lambda>s req. Reply JNull (Some \<lparr>statusCode = code\<rparr>) b)\<rparr>"

definition fresh :: state where
  "fresh = \<lparr>NODE_TLS_REJECT_UNAUTHORIZED = None, sent = []\<rparr>"

section \<open>Properties\<close>

subsection \<open>One request per call\<close>

lemma sent_createSimulation:
  "sent (snd (createSimulation w env s)) = sent s @ [create_request w env]"
  by (simp add: createSimulation_def create_request_def send_def Let_def)

lemma sent_startSimulation:
  "sent (snd (startSimulation w simulation s)) = sent s @ [start_request w simulation]"
  by (simp add: startSimulation_def start_request_def send_def Let_def)

lemma sent_getAgentStatus:
  "sent (snd (getAgentStatus w simulation agent s)) = sent s @ [status_request w simulation agent]"
  by (simp add: getAgentStatus_def status_request_def send_def Let_def)

lemma sent_performAgentAction:
  "sent (snd (performAgentAction w simulation agent action mode s))
     = sent s @ [action_request w simulation agent action mode]"
  by (simp add: performAgentAction_def action_request_def send_def Let_def)

lemma sent_simulateStep:
  "sent (snd (simulateStep w simulation s)) = sent s @ [step_request w simulation]"
  by (simp add: simulateStep_def step_request_def send_def Let_def)

lemma simulateAgentAction_unfold:
  "simulateAgentAction w simulation agent action mode s =
     (case performAgentAction w simulation agent action mode s of
        (Fulfilled actionOut, s1) \<Rightarrow>
          (case simulateStep w simulation s1 of
             (Fulfilled stepOut, s2) \<Rightarrow> getAgentStatus w simulation agent s2
           | (Rejected stepError, s2) \<Rightarrow> (Rejected stepError, s2)
           | (Pending, s2) \<Rightarrow> (Pending, s2))
      | (Rejected actionError, s1) \<Rightarrow> (Rejected actionError, s1)
      | (Pending, s1) \<Rightarrow> (Pending, s1))"
  by (simp add: simulateAgentAction_def new_Promise_def promise_catch_def promise_then_def
      inside_def call_resolve_def call_reject_def split: prod.splits outcome.splits)

subsection \<open>The checks on the arguments\<close>

text \<open>
  The first check that fails settles the promise; what is called later, the other checks
  and the callback of the request, finds it settled.
\<close>

lemma reject_settled [simp]: "p \<noteq> Pending \<Longrightarrow> reject e p = p"
  by (cases p) simp_all

lemma resolve_settled [simp]: "p \<noteq> Pending \<Longrightarrow> resolve v p = p"
  by (cases p) simp_all

lemma performAgentAction_callback_settled:
  "p \<noteq> Pending \<Longrightarrow> performAgentAction_callback simulation action p rep = p"
  by (cases rep) (simp split: option.splits)

lemma simulateStep_callback_settled: "p \<noteq> Pending \<Longrightarrow> simulateStep_callback p rep = p"
  by (cases rep) (simp split: option.splits)

lemma js_or_message [simp]: "js_or (JStr (c # cs)) b = JStr (c # cs)"
  by (simp add: js_or_def)

lemma performAgentAction_bad_simulation:
  assumes "\<not> truthy simulation \<or> \<not> Number_isInteger simulation"
  shows "fst (performAgentAction w simulation agent action mode s)
           = Rejected (JStr (''Invalid Simulation ID '' @ ToString simulation))"
  using assms
  by (simp add: performAgentAction_def Let_def send_def performAgentAction_callback_settled)

lemma performAgentAction_bad_agent:
  assumes "truthy simulation" "Number_isInteger simulation" "\<not> Number_isInteger agent"
  shows "fst (performAgentAction w simulation agent action mode s)
           = Rejected (JStr (''Invalid Agent ID '' @ ToString agent))"
  using assms
  by (simp add: performAgentAction_def Let_def send_def performAgentAction_callback_settled)

lemma performAgentAction_bad_action:
  assumes "truthy simulation" "Number_isInteger simulation" "Number_isInteger agent"
    "\<not> Array_includes (Object_values AgentAction) action"
  shows "fst (performAgentAction w simulation agent action mode s)
           = Rejected (JStr (''Invalid action '' @ ToString action))"
proof -
  from assms(3) have "\<not> eq_undefined_literal agent" by (cases agent) simp_all
  with assms show ?thesis
    by (simp add: performAgentAction_def Let_def send_def performAgentAction_callback_settled)
qed

lemma included_truthy:
  "Array_includes (Object_values AgentAction) action \<Longrightarrow> truthy action"
  by (auto simp: Array_includes_def Object_values_def AgentAction_def)

lemma performAgentAction_bad_mode:
  assumes "truthy simulation" "Number_isInteger simulation" "Number_isInteger agent"
    "Array_includes (Object_values AgentAction) action" "eq_null mode"
  shows "fst (performAgentAction w simulation agent action mode s)
           = Rejected (JStr (''Invalid action '' @ ToString mode))"
proof -
  from assms(3) have "\<not> eq_undefined_literal agent" by (cases agent) simp_all
  with assms included_truthy [OF assms(4)] show ?thesis
    by (simp add: performAgentAction_def Let_def send_def performAgentAction_callback_settled)
qed

lemma performAgentAction_valid:
  assumes "truthy simulation" "Number_isInteger simulation" "Number_isInteger agent"
    "Array_includes (Object_values AgentAction) action" "\<not> eq_null mode"
  shows "fst (performAgentAction w simulation agent action mode s)
           = performAgentAction_callback simulation action Pending
               (remote w s (action_request w simulation agent action mode))"
proof -
  from assms(3) have "\<not> eq_undefined_literal agent" by (cases agent) simp_all
  with assms included_truthy [OF assms(4)] show ?thesis
    by (simp add: performAgentAction_def Let_def send_def action_request_def)
qed

lemma simulateStep_bad_simulation:
  assumes "\<not> truthy simulation \<or> \<not> Number_isInteger simulation"
  shows "fst (simulateStep w simulation s)
           = Rejected (JStr (''Invalid Simulation ID '' @ ToString simulation))"
  using assms
  by (simp add: simulateStep_def Let_def send_def simulateStep_callback_settled)

text \<open>
  C10. \<^verbatim>\<open>performAgentAction\<close> and \<^verbatim>\<open>simulateStep\<close> both reject the simulation id 0:
  their guard \<^verbatim>\<open>!simulation\<close> takes the number 0 for a missing id. Whatever the agent,
  the action, the mode and the answer of the service, both promises are rejected with
  the message of the simulation id check.
\<close>

theorem zero_simulation_id_rejected:
  "fst (performAgentAction w (JNum (Fin 0)) agent action mode s)
     = Rejected (JStr ''Invalid Simulation ID 0'')
   \<and> fst (simulateStep w (JNum (Fin 0)) s) = Rejected (JStr ''Invalid Simulation ID 0'')"
  using performAgentAction_bad_simulation [of "JNum (Fin 0)" w agent action mode s]
    simulateStep_bad_simulation [of "JNum (Fin 0)" w s]
  by simp

theorem zero_simulation_id_rejected_witness:
  "fst (performAgentAction (answering 200 (JStr ''ok'')) (JNum (Fin 0)) (JNum (Fin 1))
          (JStr ''idle'') (JStr ''slow'') fresh)
     = Rejected (JStr ''Invalid Simulation ID 0'')
   \<and> fst (simulateStep (answering 200 (JStr ''ok'')) (JNum (Fin 0)) fresh)
       = Rejected (JStr ''Invalid Simulation ID 0'')"
  using zero_simulation_id_rejected
    [of "answering 200 (JStr ''ok'')" "JNum (Fin 1)" "JStr ''idle''" "JStr ''slow''" fresh]
  by simp

subsection \<open>Status codes\<close>

lemma startSimulation_outcome:
  "fst (startSimulation w simulation s)
     = startSimulation_callback Pending
         (remote w (s\<lparr>NODE_TLS_REJECT_UNAUTHORIZED := Some ''0''\<rparr>) (start_request w simulation))"
  by (simp add: startSimulation_def Let_def send_def start_request_def)

lemma createSimulation_outcome:
  "fst (createSimulation w env s)
     = createSimulation_callback Pending
         (remote w (s\<lparr>NODE_TLS_REJECT_UNAUTHORIZED := Some ''0''\<rparr>) (create_request w env))"
  by (simp add: createSimulation_def Let_def send_def create_request_def)

text \<open>
  C4. \<^verbatim>\<open>startSimulation\<close> resolves exactly when the status of the response is 200.
  With any other status, 201 included, it rejects with the body, although
  \<^verbatim>\<open>createSimulation\<close> resolves on 201. With no response at all the promise is never
  settled.
\<close>

theorem startSimulation_only_200:
  "fst (startSimulation w simulation s)
     = (case remote w (s\<lparr>NODE_TLS_REJECT_UNAUTHORIZED := Some ''0''\<rparr>)
               (start_request w simulation) of
          Reply error None body \<Rightarrow> Pending
        | Reply error (Some r) body \<Rightarrow>
            if statusCode r = 200 then Fulfilled body else Rejected body)
   \<and> (remote w (s\<lparr>NODE_TLS_REJECT_UNAUTHORIZED := Some ''0''\<rparr>) (start_request w simulation)
         = Reply error' (Some r') body'
       \<longrightarrow> ((\<exists>v. fst (startSimulation w simulation s) = Fulfilled v) \<longleftrightarrow> statusCode r' = 200))
   \<and> (remote w (s\<lparr>NODE_TLS_REJECT_UNAUTHORIZED := Some ''0''\<rparr>) (create_request w env)
         = Reply error' (Some r') body' \<and> statusCode r' = 201
       \<longrightarrow> fst (createSimulation w env s) = Fulfilled body')"
  by (simp add: startSimulation_outcome createSimulation_outcome split: reply.splits option.splits)

theorem startSimulation_only_200_witness:
  "fst (startSimulation (answering 200 (JStr ''started'')) (JNum (Fin 3)) fresh)
     = Fulfilled (JStr ''started'')
   \<and> fst (startSimulation (answering 201 (JStr ''created'')) (JNum (Fin 3)) fresh)
       = Rejected (JStr ''created'')
   \<and> fst (createSimulation (answering 201 (JStr ''created'')) (JStr ''HW1'') fresh)
       = Fulfilled (JStr ''created'')"
  using startSimulation_only_200
      [of "answering 200 (JStr ''started'')" "JNum (Fin 3)" fresh]
    startSimulation_only_200
      [of "answering 201 (JStr ''created'')" "JNum (Fin 3)" fresh JNull "\<lparr>statusCode = 201\<rparr>"
        "JStr ''created''" "JStr ''HW1''"]
  by (simp add: answering_def)

subsection \<open>The action cycle\<close>

text \<open>
  A service that answers 200 to the first \<open>n\<close> requests of a run and 500 from then on.
\<close>

definition accepting_until :: "nat \<Rightarrow> world" where
  "accepting_until n =
     \<lparr>SIMULATION_SERVER = JStr ''localhost'',
      remote = (\<lambda>s req. if length (sent s) < n
                          then Reply JNull (Some \<lparr>statusCode = 200\<rparr>) (JStr ''ok'')
                          else Reply JNull (Some \<lparr>statusCode = 500\<rparr>) (JStr ''down''))\<rparr>"

text \<open>
  The stages of the cycle. \<^verbatim>\<open>simulateStep\<close> runs only once \<^verbatim>\<open>performAgentAction\<close>
  is fulfilled, in the state that stage left, and \<^verbatim>\<open>getAgentStatus\<close> only once
  \<^verbatim>\<open>simulateStep\<close> is fulfilled. A stage whose promise is rejected rejects the cycle
  with its own error, one whose promise stays pending leaves the cycle pending, and either
  way no request of a later stage is issued.
\<close>

lemma simulateAgentAction_pipeline:
  "simulateAgentAction w simulation agent action mode s
     = (case performAgentAction w simulation agent action mode s of
          (Fulfilled actionOut, s1) \<Rightarrow>
            (case simulateStep w simulation s1 of
               (Fulfilled stepOut, s2) \<Rightarrow> getAgentStatus w simulation agent s2
             | (Rejected stepError, s2) \<Rightarrow> (Rejected stepError, s2)
             | (Pending, s2) \<Rightarrow> (Pending, s2))
        | (Rejected actionError, s1) \<Rightarrow> (Rejected actionError, s1)
        | (Pending, s1) \<Rightarrow> (Pending, s1))
   \<and> sent (snd (simulateAgentAction w simulation agent action mode s))
       = sent s @
         (case performAgentAction w simulation agent action mode s of
            (Fulfilled actionOut, s1) \<Rightarrow>
              (case simulateStep w simulation s1 of
                 (Fulfilled stepOut, s2) \<Rightarrow>
                   [action_request w simulation agent action mode, step_request w simulation,
                    status_request w simulation agent]
               | (Rejected stepError, s2) \<Rightarrow>
                   [action_request w simulation agent action mode, step_request w simulation]
               | (Pending, s2) \<Rightarrow>
                   [action_request w simulation agent action mode, step_request w simulation])
          | (Rejected actionError, s1) \<Rightarrow> [action_request w simulation agent action mode]
          | (Pending, s1) \<Rightarrow> [action_request w simulation agent action mode])"
proof -
  obtain r1 s1 where p1: "performAgentAction w simulation agent action mode s = (r1, s1)"
    by (cases "performAgentAction w simulation agent action mode s")
  obtain r2 s2 where p2: "simulateStep w simulation s1 = (r2, s2)"
    by (cases "simulateStep w simulation s1")
  have t1: "sent s1 = sent s @ [action_request w simulation agent action mode]"
    using sent_performAgentAction [of w simulation agent action mode s] p1 by simp
  have t2: "sent s2 = sent s1 @ [step_request w simulation]"
    using sent_simulateStep [of w simulation s1] p2 by simp
  have t3: "sent (snd (getAgentStatus w simulation agent s2))
              = sent s2 @ [status_request w simulation agent]"
    by (rule sent_getAgentStatus)
  show ?thesis
    using p1 p2 t1 t2 t3
    by (cases r1; cases r2) (simp_all add: simulateAgentAction_unfold)
qed



lemma cycle_example_action:
  "performAgentAction (accepting_until (Suc 0)) (JNum (Fin 1)) (JNum (Fin 2)) (JStr ''idle'')
       (JStr ''slow'') fresh
     = (Fulfilled (JStr ''ok''),
        \<lparr>NODE_TLS_REJECT_UNAUTHORIZED = None,
         sent = [action_request (accepting_until (Suc 0)) (JNum (Fin 1)) (JNum (Fin 2)) (JStr ''idle'')
                   (JStr ''slow'')]\<rparr>)"
  by code_simp

lemma cycle_example_step:
  "simulateStep (accepting_until (Suc 0)) (JNum (Fin 1))
       \<lparr>NODE_TLS_REJECT_UNAUTHORIZED = None,
        sent = [action_request (accepting_until (Suc 0)) (JNum (Fin 1)) (JNum (Fin 2)) (JStr ''idle'')
                  (JStr ''slow'')]\<rparr>
     = (Rejected (JStr ''500 Error : null''),
        \<lparr>NODE_TLS_REJECT_UNAUTHORIZED = None,
         sent = [action_request (accepting_until (Suc 0)) (JNum (Fin 1)) (JNum (Fin 2)) (JStr ''idle'')
                   (JStr ''slow''),
                 step_request (accepting_until (Suc 0)) (JNum (Fin 1))]\<rparr>)"
  by code_simp

lemma simulateAgentAction_pipeline_example:
  "simulateAgentAction (accepting_until (Suc 0)) (JNum (Fin 1)) (JNum (Fin 2)) (JStr ''idle'')
       (JStr ''slow'') fresh
     = (Rejected (JStr ''500 Error : null''),
        \<lparr>NODE_TLS_REJECT_UNAUTHORIZED = None,
         sent = [action_request (accepting_until (Suc 0)) (JNum (Fin 1)) (JNum (Fin 2)) (JStr ''idle'')
                   (JStr ''slow''),
                 step_request (accepting_until (Suc 0)) (JNum (Fin 1))]\<rparr>)"
  using simulateAgentAction_pipeline
    [of "accepting_until (Suc 0)" "JNum (Fin 1)" "JNum (Fin 2)" "JStr ''idle''" "JStr ''slow''" fresh]
  by (simp add: cycle_example_action cycle_example_step)

subsection \<open>Submitting an action\<close>

lemma remote_answering [simp]:
  "remote (answering code b) s req = Reply JNull (Some \<lparr>statusCode = code\<rparr>) b"
  by (simp add: answering_def)

lemma apiBase_answering [simp]: "apiBase (answering code b) = ''https://localhost/api/''"
  by (simp add: answering_def apiBase_def)

lemma positive_to_string_400: "positive_to_string 400 = ''400''"
  by code_simp

lemma positive_to_string_7: "positive_to_string 7 = ''7''"
  by code_simp

lemma performAgentAction_rejects_invalid:
  assumes "\<not> Number_isInteger simulation \<or> \<not> Number_isInteger agent
           \<or> \<not> Array_includes (Object_values AgentAction) action \<or> eq_null mode"
  shows "\<exists>e. fst (performAgentAction w simulation agent action mode s) = Rejected e"
proof (cases "truthy simulation \<and> Number_isInteger simulation")
  case False
  then show ?thesis
    using performAgentAction_bad_simulation [of simulation w agent action mode s] by blast
next
  case sim: True
  show ?thesis
  proof (cases "Number_isInteger agent")
    case False
    with sim show ?thesis
      using performAgentAction_bad_agent [of simulation agent w action mode s] by blast
  next
    case ag: True
    show ?thesis
    proof (cases "Array_includes (Object_values AgentAction) action")
      case False
      with sim ag show ?thesis
        using performAgentAction_bad_action [of simulation agent action w mode s] by blast
    next
      case True
      with sim ag assms have "eq_null mode" by blast
      with sim ag True show ?thesis
        using performAgentAction_bad_mode [of simulation agent action mode w s] by blast
    qed
  qed
qed

text \<open>
  C3. With a simulation id or an agent id that is no integer, an action outside
  \<^verbatim>\<open>AgentAction\<close>, or a mode that is null or undefined, \<^verbatim>\<open>performAgentAction\<close> rejects,
  whatever the service answers. It does not stop there: the checks have no
  \<^verbatim>\<open>return\<close>, and the request is posted all the same.
\<close>

theorem performAgentAction_invalid_input_still_posts:
  assumes "\<not> Number_isInteger simulation \<or> \<not> Number_isInteger agent
           \<or> \<not> Array_includes (Object_values AgentAction) action \<or> eq_null mode"
  shows "(\<exists>e. fst (performAgentAction w simulation agent action mode s) = Rejected e)
         \<and> sent (snd (performAgentAction w simulation agent action mode s))
             = sent s @ [action_request w simulation agent action mode]"
  using performAgentAction_rejects_invalid [OF assms] sent_performAgentAction by blast

lemma invalid_example:
  "performAgentAction (answering 200 (JStr ''ok'')) (JStr ''abc'') (JNum (Fin 1)) (JStr ''idle'')
       (JStr ''slow'') fresh
     = (Rejected (JStr ''Invalid Simulation ID abc''),
        \<lparr>NODE_TLS_REJECT_UNAUTHORIZED = None,
         sent = [\<lparr>verb = POST, url = ''https://localhost/api/simulations/abc/agents/1/action'',
                  requestBody = JObj [(''action'', JStr ''idle''), (''mode'', JStr ''slow'')],
                  json = True\<rparr>]\<rparr>)"
  by code_simp

theorem performAgentAction_invalid_input_still_posts_witness:
  "\<not> Number_isInteger (JStr ''abc'')
   \<and> fst (performAgentAction (answering 200 (JStr ''ok'')) (JStr ''abc'') (JNum (Fin 1))
            (JStr ''idle'') (JStr ''slow'') fresh)
       = Rejected (JStr ''Invalid Simulation ID abc'')
   \<and> sent (snd (performAgentAction (answering 200 (JStr ''ok'')) (JStr ''abc'') (JNum (Fin 1))
                  (JStr ''idle'') (JStr ''slow'') fresh))
       = [\<lparr>verb = POST, url = ''https://localhost/api/simulations/abc/agents/1/action'',
           requestBody = JObj [(''action'', JStr ''idle''), (''mode'', JStr ''slow'')],
           json = True\<rparr>]"
  using performAgentAction_invalid_input_still_posts
    [of "JStr ''abc''" "JNum (Fin 1)" "JStr ''idle''" "JStr ''slow''"
      "answering 200 (JStr ''ok'')" fresh]
  by (simp add: invalid_example)

lemma performAgentAction_callback_no_Error:
  "p \<noteq> Rejected (JError n m) \<Longrightarrow> performAgentAction_callback simulation action p rep \<noteq> Rejected (JError n m)"
  by (cases rep; cases p) (simp_all add: response_eq_number_def split: option.splits)

lemma performAgentAction_no_Error:
  "fst (performAgentAction w simulation agent action mode s) \<noteq> Rejected (JError n m)"
proof (cases "\<not> Number_isInteger simulation \<or> \<not> Number_isInteger agent
           \<or> \<not> Array_includes (Object_values AgentAction) action \<or> eq_null mode")
  case inv: True
  show ?thesis
  proof (cases "truthy simulation \<and> Number_isInteger simulation")
    case False
    then show ?thesis
      using performAgentAction_bad_simulation [of simulation w agent action mode s] by auto
  next
    case sim: True
    show ?thesis
    proof (cases "Number_isInteger agent")
      case False
      with sim show ?thesis
        using performAgentAction_bad_agent [of simulation agent w action mode s] by auto
    next
      case ag: True
      show ?thesis
      proof (cases "Array_includes (Object_values AgentAction) action")
        case False
        with sim ag show ?thesis
          using performAgentAction_bad_action [of simulation agent action w mode s] by auto
      next
        case True
        with sim ag inv have "eq_null mode" by blast
        with sim ag True show ?thesis
          using performAgentAction_bad_mode [of simulation agent action mode w s] by auto
      qed
    qed
  qed
next
  case False
  show ?thesis
  proof (cases "truthy simulation")
    case True
    with False show ?thesis
      using performAgentAction_valid [of simulation agent action mode w s]
        performAgentAction_callback_no_Error [of Pending n m simulation action]
      by simp
  next
    case False
    then show ?thesis
      using performAgentAction_bad_simulation [of simulation w agent action mode s] by auto
  qed
qed

text \<open>
  C6. The branches for the statuses 400 and 415 compare the response object, not its
  status code, with the number and are never taken: \<^verbatim>\<open>performAgentAction\<close> never
  rejects with one of the two \<^verbatim>\<open>Error\<close> objects. On valid input every status other than
  200 and 201, the statuses 400 and 415 among them, gives the one message built from the
  status code and the error.
\<close>

theorem performAgentAction_failure_is_generic:
  "fst (performAgentAction w simulation agent action mode s) \<noteq> Rejected (JError n m)
   \<and> (truthy simulation \<and> Number_isInteger simulation \<and> Number_isInteger agent
        \<and> Array_includes (Object_values AgentAction) action \<and> \<not> eq_null mode
        \<and> remote w s (action_request w simulation agent action mode) = Reply error (Some r) body
        \<and> statusCode r \<noteq> 200 \<and> statusCode r \<noteq> 201
      \<longrightarrow> fst (performAgentAction w simulation agent action mode s)
            = Rejected (JStr (ToString (JNum (Fin (of_int (statusCode r)))) @ '' Error : ''
                                @ ToString error)))"
  using performAgentAction_no_Error [of w simulation agent action mode s n m]
    performAgentAction_valid [of simulation agent action mode w s]
  by (auto simp: response_eq_number_def)

lemma status_400_example:
  "fst (performAgentAction (answering 400 (JStr ''bad request'')) (JNum (Fin 1)) (JNum (Fin 2))
          (JStr ''idle'') (JStr ''slow'') fresh)
     = Rejected (JStr ''400 Error : null'')"
  by code_simp

theorem performAgentAction_failure_is_generic_witness:
  "(truthy (JNum (Fin 1)) \<and> Number_isInteger (JNum (Fin 1)) \<and> Number_isInteger (JNum (Fin 2))
      \<and> Array_includes (Object_values AgentAction) (JStr ''idle'') \<and> \<not> eq_null (JStr ''slow'')
      \<and> remote (answering 400 (JStr ''bad request'')) fresh
            (action_request (answering 400 (JStr ''bad request'')) (JNum (Fin 1)) (JNum (Fin 2))
               (JStr ''idle'') (JStr ''slow''))
          = Reply JNull (Some \<lparr>statusCode = 400\<rparr>) (JStr ''bad request''))
   \<and> fst (performAgentAction (answering 400 (JStr ''bad request'')) (JNum (Fin 1)) (JNum (Fin 2))
            (JStr ''idle'') (JStr ''slow'') fresh)
       = Rejected (JStr ''400 Error : null'')
   \<and> fst (performAgentAction (answering 400 (JStr ''bad request'')) (JNum (Fin 1)) (JNum (Fin 2))
            (JStr ''idle'') (JStr ''slow'') fresh)
       \<noteq> Rejected (JError ''Error'' ''400 - Invalid actionid or simulationid idle, 1'')"
  using performAgentAction_failure_is_generic
    [of "answering 400 (JStr ''bad request'')" "JNum (Fin 1)" "JNum (Fin 2)" "JStr ''idle''"
      "JStr ''slow''" fresh "''Error''" "''400 - Invalid actionid or simulationid idle, 1''"
      JNull "\<lparr>statusCode = 400\<rparr>" "JStr ''bad request''"]
  by (simp add: status_400_example positive_to_string_400 Array_includes_def Object_values_def
      AgentAction_def eq_null_def)

text \<open>
  C5, as the specification states it, fails for the simulation id 0: the id is an integer,
  the agent id and the mode are valid, the service answers 200, and the promise is not
  fulfilled with the body.
\<close>

theorem zero_simulation_id_not_fulfilled:
  "Number_isInteger (JNum (Fin 0)) \<and> Number_isInteger (JNum (Fin 5))
   \<and> remote (answering 200 (JStr ''moved'')) fresh
         (action_request (answering 200 (JStr ''moved'')) (JNum (Fin 0)) (JNum (Fin 5))
            (JStr ''moveForward'') (JBool True))
       = Reply JNull (Some \<lparr>statusCode = 200\<rparr>) (JStr ''moved'')
   \<and> fst (performAgentAction (answering 200 (JStr ''moved'')) (JNum (Fin 0)) (JNum (Fin 5))
            (JStr ''moveForward'') (JBool True) fresh)
       \<noteq> Fulfilled (JStr ''moved'')"
  by (simp add: performAgentAction_bad_simulation)

lemma integer_id: "Number_isInteger (JNum (Fin (of_int i)))"
  by simp

lemma nonzero_id_truthy: "i \<noteq> 0 \<Longrightarrow> truthy (JNum (Fin (of_int i)))"
  by simp

text \<open>
  C5, amended. For each of the six actions, an integer simulation id other than 0, an
  integer agent id and a mode that is neither null nor undefined, \<^verbatim>\<open>performAgentAction\<close>
  posts one request, with the body \<^verbatim>\<open>{action, mode}\<close>, to
  \<^verbatim>\<open>simulations/{id}/agents/{agentId}/action\<close>, and is fulfilled with the body of the
  response when its status is 200 or 201.
\<close>

theorem performAgentAction_request_and_success:
  assumes "i \<noteq> 0"
    and "action \<in> set (map JStr [''moveForward'', ''turnLeft'', ''turnRight'', ''pickUp'',
                                   ''drop'', ''idle''])"
    and "mode \<noteq> JNull" and "mode \<noteq> JUndefined"
  shows "sent (snd (performAgentAction w (JNum (Fin (of_int i))) (JNum (Fin (of_int j))) action
                      mode s))
           = sent s @
             [\<lparr>verb = POST,
               url = apiBase w @ ''simulations/'' @ ToString (JNum (Fin (of_int i)))
                       @ ''/agents/'' @ ToString (JNum (Fin (of_int j))) @ ''/action'',
               requestBody = JObj [(''action'', action), (''mode'', mode)],
               json = True\<rparr>]
         \<and> (remote w s (action_request w (JNum (Fin (of_int i))) (JNum (Fin (of_int j))) action
                          mode)
               = Reply error (Some r) body
             \<and> (statusCode r = 200 \<or> statusCode r = 201)
             \<longrightarrow> fst (performAgentAction w (JNum (Fin (of_int i))) (JNum (Fin (of_int j))) action
                       mode s)
                   = Fulfilled body)"
proof -
  from assms(2) have inc: "Array_includes (Object_values AgentAction) action"
    by (simp add: Array_includes_def Object_values_def AgentAction_def)
  from assms(3,4) have m: "\<not> eq_null mode" by (simp add: eq_null_def)
  show ?thesis
    using performAgentAction_valid
        [of "JNum (Fin (of_int i))" "JNum (Fin (of_int j))" action mode w s]
      nonzero_id_truthy [OF assms(1)] integer_id [of i] integer_id [of j] inc m
      sent_performAgentAction [of w "JNum (Fin (of_int i))" "JNum (Fin (of_int j))" action mode s]
    by (auto simp: action_request_def)
qed

lemma success_example:
  "performAgentAction (answering 201 (JStr ''moved'')) (JNum (Fin 7)) (JNum (Fin 0))
       (JStr ''moveForward'') (JBool True) fresh
     = (Fulfilled (JStr ''moved''),
        \<lparr>NODE_TLS_REJECT_UNAUTHORIZED = None,
         sent = [\<lparr>verb = POST, url = ''https://localhost/api/simulations/7/agents/0/action'',
                  requestBody = JObj [(''action'', JStr ''moveForward''), (''mode'', JBool True)],
                  json = True\<rparr>]\<rparr>)"
  by code_simp

theorem performAgentAction_request_and_success_witness:
  "(7::int) \<noteq> 0
   \<and> JStr ''moveForward'' \<in> set (map JStr [''moveForward'', ''turnLeft'', ''turnRight'',
                                             ''pickUp'', ''drop'', ''idle''])
   \<and> JBool True \<noteq> JNull \<and> JBool True \<noteq> JUndefined
   \<and> sent (snd (performAgentAction (answering 201 (JStr ''moved'')) (JNum (Fin (of_int 7)))
                  (JNum (Fin (of_int 0))) (JStr ''moveForward'') (JBool True) fresh))
       = [\<lparr>verb = POST, url = ''https://localhost/api/simulations/7/agents/0/action'',
           requestBody = JObj [(''action'', JStr ''moveForward''), (''mode'', JBool True)],
           json = True\<rparr>]
   \<and> fst (performAgentAction (answering 201 (JStr ''moved'')) (JNum (Fin (of_int 7)))
            (JNum (Fin (of_int 0))) (JStr ''moveForward'') (JBool True) fresh)
       = Fulfilled (JStr ''moved'')"
  using performAgentAction_request_and_success
    [of 7 "JStr ''moveForward''" "JBool True" "answering 201 (JStr ''moved'')" 0 fresh
      JNull "\<lparr>statusCode = 201\<rparr>" "JStr ''moved''"]
  by (simp add: success_example positive_to_string_7 fresh_def)

subsection \<open>The action sequence\<close>

text \<open>
  The actions whose cycle \<^verbatim>\<open>executeActionArray\<close> starts according to the specification:
  the first, and each one after a cycle that was fulfilled.
\<close>

fun attempted :: "world \<Rightarrow> jsval \<Rightarrow> jsval \<Rightarrow> jsval \<Rightarrow> jsval list \<Rightarrow> state \<Rightarrow> jsval list" where
  "attempted w simulation agent mode [] s = []"
| "attempted w simulation agent mode (a # as) s =
     a # (case simulateAgentAction w simulation agent a mode s of
            (Fulfilled v, s1) \<Rightarrow> attempted w simulation agent mode as s1
          | (Rejected e, s1) \<Rightarrow> []
          | (Pending, s1) \<Rightarrow> [])"

text \<open>Every cycle of the list is fulfilled, each run in the state the one before left.\<close>

fun every_cycle_fulfils ::
  "world \<Rightarrow> jsval \<Rightarrow> jsval \<Rightarrow> jsval \<Rightarrow> jsval list \<Rightarrow> state \<Rightarrow> bool" where
  "every_cycle_fulfils w simulation agent mode [] s = True"
| "every_cycle_fulfils w simulation agent mode (a # as) s =
     (case simulateAgentAction w simulation agent a mode s of
        (Fulfilled v, s1) \<Rightarrow> every_cycle_fulfils w simulation agent mode as s1
      | (Rejected e, s1) \<Rightarrow> False
      | (Pending, s1) \<Rightarrow> False)"

text \<open>The posted requests among those issued; in a cycle only the action is posted.\<close>

definition posts :: "request list \<Rightarrow> request list" where
  "posts rs = filter (\<lambda>q. verb q = POST) rs"

lemma performAction_shift:
  "performAction w simulation agent (a # as) mode (Suc i) s
     = performAction w simulation agent as mode i s"
proof (induction "length as - i" arbitrary: i s)
  case 0
  then show ?case
    by (simp add: performAction.simps [of _ _ _ _ _ i] performAction.simps [of _ _ _ _ _ "Suc i"])
next
  case (Suc n)
  then have lt: "i < length as" by simp
  from Suc have "n = length as - Suc i" by simp
  from Suc.hyps(1) [OF this]
  have IH: "\<And>s'. performAction w simulation agent (a # as) mode (Suc (Suc i)) s'
              = performAction w simulation agent as mode (Suc i) s'" .
  show ?case
    using lt
    by (simp add: performAction.simps [of _ _ _ _ _ i] performAction.simps [of _ _ _ _ _ "Suc i"] IH)
qed

lemma executeActionArray_Nil:
  "executeActionArray w simulation agent [] mode s = (Returns JUndefined, s)"
  by (simp add: executeActionArray_def performAction.simps)

lemma executeActionArray_Cons:
  "executeActionArray w simulation agent (a # as) mode s
     = (case simulateAgentAction w simulation agent a mode s of
          (Fulfilled v, s1) \<Rightarrow>
            (case adopt (executeActionArray w simulation agent as mode s1) of
               (r, s2) \<Rightarrow> (ReturnsPromise r, s2))
        | (Rejected e, s1) \<Rightarrow> (ReturnsPromise (Rejected e), s1)
        | (Pending, s1) \<Rightarrow> (ReturnsPromise Pending, s1))"
  by (simp add: executeActionArray_def performAction.simps [of _ _ _ _ _ 0] performAction_shift
      promise_then_def split: prod.splits outcome.splits)

lemma posts_simulateAgentAction:
  "posts (sent (snd (simulateAgentAction w simulation agent action mode s)))
     = posts (sent s) @ [action_request w simulation agent action mode]"
proof -
  obtain r1 s1 where p1: "performAgentAction w simulation agent action mode s = (r1, s1)"
    by (cases "performAgentAction w simulation agent action mode s")
  obtain r2 s2 where p2: "simulateStep w simulation s1 = (r2, s2)"
    by (cases "simulateStep w simulation s1")
  have t1: "sent s1 = sent s @ [action_request w simulation agent action mode]"
    using sent_performAgentAction [of w simulation agent action mode s] p1 by simp
  have t2: "sent s2 = sent s1 @ [step_request w simulation]"
    using sent_simulateStep [of w simulation s1] p2 by simp
  have t3: "sent (snd (getAgentStatus w simulation agent s2))
              = sent s2 @ [status_request w simulation agent]"
    by (rule sent_getAgentStatus)
  show ?thesis
    using p1 p2 t1 t2 t3
    by (cases r1; cases r2)
      (simp_all add: simulateAgentAction_unfold posts_def action_request_def step_request_def
        status_request_def)
qed

lemma snd_adopt [simp]: "snd (adopt p) = snd p"
  by (cases p; cases "fst p") auto

lemma posts_executeActionArray:
  "posts (sent (snd (executeActionArray w simulation agent actions mode s)))
     = posts (sent s)
       @ map (\<lambda>a. action_request w simulation agent a mode)
           (attempted w simulation agent mode actions s)"
proof (induction actions arbitrary: s)
  case Nil
  then show ?case by (simp add: executeActionArray_Nil)
next
  case (Cons a as)
  obtain r s1 where c: "simulateAgentAction w simulation agent a mode s = (r, s1)"
    by (cases "simulateAgentAction w simulation agent a mode s")
  have p: "posts (sent s1) = posts (sent s) @ [action_request w simulation agent a mode]"
    using posts_simulateAgentAction [of w simulation agent a mode s] c by simp
  show ?case
  proof (cases r)
    case (Fulfilled v)
    obtain r' s2 where e: "executeActionArray w simulation agent as mode s1 = (r', s2)"
      by (cases "executeActionArray w simulation agent as mode s1")
    with Cons.IH [of s1] c p Fulfilled show ?thesis
      by (simp add: executeActionArray_Cons split_beta)
  next
    case (Rejected e)
    with c p show ?thesis by (simp add: executeActionArray_Cons)
  next
    case Pending
    with c p show ?thesis by (simp add: executeActionArray_Cons)
  qed
qed

lemma attempted_all:
  "every_cycle_fulfils w simulation agent mode actions s
   \<Longrightarrow> attempted w simulation agent mode actions s = actions"
  by (induction actions arbitrary: s) (auto split: prod.splits outcome.splits)

lemma fulfils_with_undefined:
  "fst (executeActionArray w simulation agent actions mode s) = ReturnsPromise (Fulfilled v)
   \<Longrightarrow> v = JUndefined"
proof (induction actions arbitrary: s)
  case Nil
  then show ?case by (simp add: executeActionArray_Nil)
next
  case (Cons a as)
  obtain r s1 where c: "simulateAgentAction w simulation agent a mode s = (r, s1)"
    by (cases "simulateAgentAction w simulation agent a mode s")
  obtain r' s2 where e: "executeActionArray w simulation agent as mode s1 = (r', s2)"
    by (cases "executeActionArray w simulation agent as mode s1")
  show ?case
  proof (cases r)
    case (Fulfilled u)
    show ?thesis
    proof (cases r')
      case (Returns x)
      with e have "as = []"
        by (cases as) (auto simp: executeActionArray_Nil executeActionArray_Cons
            split: prod.splits outcome.splits)
      with Cons.prems c Fulfilled show ?thesis
        by (simp add: executeActionArray_Cons executeActionArray_Nil)
    next
      case (ReturnsPromise q)
      with Cons.prems c e Fulfilled have "q = Fulfilled v"
        by (simp add: executeActionArray_Cons)
      with Cons.IH [of s1] e ReturnsPromise show ?thesis by simp
    qed
  next
    case (Rejected x)
    with Cons.prems c show ?thesis by (simp add: executeActionArray_Cons)
  next
    case Pending
    with Cons.prems c show ?thesis by (simp add: executeActionArray_Cons)
  qed
qed

lemma all_fulfil_undefined:
  "actions \<noteq> [] \<Longrightarrow> every_cycle_fulfils w simulation agent mode actions s
   \<Longrightarrow> fst (executeActionArray w simulation agent actions mode s)
       = ReturnsPromise (Fulfilled JUndefined)"
proof (induction actions arbitrary: s)
  case Nil
  then show ?case by simp
next
  case (Cons a as)
  from Cons.prems(2) obtain v s1 where
    c: "simulateAgentAction w simulation agent a mode s = (Fulfilled v, s1)"
    and rest: "every_cycle_fulfils w simulation agent mode as s1"
    by (auto split: prod.splits outcome.splits)
  show ?case
  proof (cases as)
    case Nil
    with c show ?thesis by (simp add: executeActionArray_Cons executeActionArray_Nil)
  next
    case (Cons b bs)
    with Cons.IH [of s1] rest
    have "fst (executeActionArray w simulation agent as mode s1)
            = ReturnsPromise (Fulfilled JUndefined)" by simp
    with c show ?thesis
      by (cases "executeActionArray w simulation agent as mode s1")
        (simp add: executeActionArray_Cons)
  qed
qed

declare attempted.simps [simp del] every_cycle_fulfils.simps [simp del]

lemma posts_fresh: "posts (sent fresh) = []"
  by (simp add: fresh_def posts_def)

lemma sequence_example:
  "executeActionArray (accepting_until 4) (JNum (Fin 1)) (JNum (Fin 2))
       [JStr ''idle'', JStr ''moveForward'', JStr ''pickUp''] (JStr ''slow'') fresh
     = (ReturnsPromise (Rejected (JStr ''500 Error : null'')),
        \<lparr>NODE_TLS_REJECT_UNAUTHORIZED = Some ''0'',
         sent =
           [\<lparr>verb = POST, url = ''https://localhost/api/simulations/1/agents/2/action'',
             requestBody = JObj [(''action'', JStr ''idle''), (''mode'', JStr ''slow'')],
             json = True\<rparr>,
            \<lparr>verb = PUT, url = ''https://localhost/api/simulations/1/step'',
             requestBody = JObj [], json = True\<rparr>,
            \<lparr>verb = GET, url = ''https://localhost/api/simulations/1/agents/2/status'',
             requestBody = JUndefined, json = False\<rparr>,
            \<lparr>verb = POST, url = ''https://localhost/api/simulations/1/agents/2/action'',
             requestBody = JObj [(''action'', JStr ''moveForward''), (''mode'', JStr ''slow'')],
             json = True\<rparr>,
            \<lparr>verb = PUT, url = ''https://localhost/api/simulations/1/step'',
             requestBody = JObj [], json = True\<rparr>]\<rparr>)"
  by code_simp

lemma sequence_example_attempted:
  "attempted (accepting_until 4) (JNum (Fin 1)) (JNum (Fin 2)) (JStr ''slow'')
       [JStr ''idle'', JStr ''moveForward'', JStr ''pickUp''] fresh
     = [JStr ''idle'', JStr ''moveForward'']"
  by code_simp

lemma sequence_example_fulfils:
  "every_cycle_fulfils (answering 200 (JStr ''ok'')) (JNum (Fin 1)) (JNum (Fin 2)) (JStr ''slow'')
     [JStr ''turnLeft'', JStr ''drop''] fresh"
  by code_simp

lemma last_status_example:
  "fst (simulateAgentAction (answering 200 (JStr ''ok'')) (JNum (Fin 1)) (JNum (Fin 2))
          (JStr ''drop'') (JStr ''slow'')
          (snd (simulateAgentAction (answering 200 (JStr ''ok'')) (JNum (Fin 1)) (JNum (Fin 2))
                  (JStr ''turnLeft'') (JStr ''slow'') fresh)))
     = Fulfilled (JStr ''ok'')"
  by code_simp

text \<open>What a call returned is a promise.\<close>

fun is_promise :: "returned \<Rightarrow> bool" where
  "is_promise (Returns v) = False"
| "is_promise (ReturnsPromise r) = True"

lemma rejected_cycle_example:
  "simulateAgentAction (answering 500 (JStr ''down'')) (JNum (Fin 1)) (JNum (Fin 2))
       (JStr ''idle'') (JStr ''slow'') fresh
     = (Rejected (JStr ''500 Error : null''),
        \<lparr>NODE_TLS_REJECT_UNAUTHORIZED = None,
         sent = [\<lparr>verb = POST, url = ''https://localhost/api/simulations/1/agents/2/action'',
                  requestBody = JObj [(''action'', JStr ''idle''), (''mode'', JStr ''slow'')],
                  json = True\<rparr>]\<rparr>)"
  by code_simp

lemma fulfilled_cycle_example:
  "simulateAgentAction (accepting_until 4) (JNum (Fin 1)) (JNum (Fin 2)) (JStr ''idle'')
       (JStr ''slow'') fresh
     = (Fulfilled (JStr ''ok''),
        \<lparr>NODE_TLS_REJECT_UNAUTHORIZED = Some ''0'',
         sent =
           [\<lparr>verb = POST, url = ''https://localhost/api/simulations/1/agents/2/action'',
             requestBody = JObj [(''action'', JStr ''idle''), (''mode'', JStr ''slow'')],
             json = True\<rparr>,
            \<lparr>verb = PUT, url = ''https://localhost/api/simulations/1/step'',
             requestBody = JObj [], json = True\<rparr>,
            \<lparr>verb = GET, url = ''https://localhost/api/simulations/1/agents/2/status'',
             requestBody = JUndefined, json = False\<rparr>]\<rparr>)"
  by code_simp

text \<open>
  C2, as the specification states it, fails for the empty list: nothing resolves, the
  call returns undefined and no promise.
\<close>

theorem executeActionArray_empty_is_no_promise:
  "fst (executeActionArray (answering 200 (JStr ''ok'')) (JNum (Fin 1)) (JNum (Fin 2)) []
          (JStr ''slow'') fresh) = Returns JUndefined
   \<and> \<not> is_promise
         (fst (executeActionArray (answering 200 (JStr ''ok'')) (JNum (Fin 1)) (JNum (Fin 2)) []
                 (JStr ''slow'') fresh))"
  by (simp add: executeActionArray_Nil)

text \<open>
  C2, amended. \<^verbatim>\<open>executeActionArray\<close> runs the action cycle on the elements of the
  list in order, each cycle in the state the one before left and only after that one was
  fulfilled. A cycle whose promise is rejected rejects the whole with its error, and
  nothing is issued for the actions after it: the action requests posted are those of the
  attempted actions, one each, in order, and all the actions are attempted when every
  cycle is fulfilled. For the empty list nothing is run and the state is unchanged: the
  call returns undefined at once, and no promise.
\<close>

theorem executeActionArray_in_order:
  "executeActionArray w simulation agent [] mode s = (Returns JUndefined, s)
   \<and> (simulateAgentAction w simulation agent a mode s = (Fulfilled v, s1)
       \<longrightarrow> executeActionArray w simulation agent (a # as) mode s
           = (case adopt (executeActionArray w simulation agent as mode s1) of
                (r, s2) \<Rightarrow> (ReturnsPromise r, s2)))
   \<and> (simulateAgentAction w simulation agent a mode s = (Rejected e, s1)
       \<longrightarrow> executeActionArray w simulation agent (a # as) mode s
           = (ReturnsPromise (Rejected e), s1))
   \<and> posts (sent (snd (executeActionArray w simulation agent actions mode s)))
       = posts (sent s)
         @ map (\<lambda>a. action_request w simulation agent a mode)
             (attempted w simulation agent mode actions s)
   \<and> (every_cycle_fulfils w simulation agent mode actions s
        \<longrightarrow> attempted w simulation agent mode actions s = actions)"
  by (simp add: executeActionArray_Nil executeActionArray_Cons [of w simulation agent a as mode s]
      posts_executeActionArray attempted_all)

theorem executeActionArray_in_order_witness:
  "simulateAgentAction (accepting_until 4) (JNum (Fin 1)) (JNum (Fin 2)) (JStr ''idle'')
       (JStr ''slow'') fresh
     = (Fulfilled (JStr ''ok''),
        \<lparr>NODE_TLS_REJECT_UNAUTHORIZED = Some ''0'',
         sent =
           [\<lparr>verb = POST, url = ''https://localhost/api/simulations/1/agents/2/action'',
             requestBody = JObj [(''action'', JStr ''idle''), (''mode'', JStr ''slow'')],
             json = True\<rparr>,
            \<lparr>verb = PUT, url = ''https://localhost/api/simulations/1/step'',
             requestBody = JObj [], json = True\<rparr>,
            \<lparr>verb = GET, url = ''https://localhost/api/simulations/1/agents/2/status'',
             requestBody = JUndefined, json = False\<rparr>]\<rparr>)
   \<and> executeActionArray (accepting_until 4) (JNum (Fin 1)) (JNum (Fin 2))
         [JStr ''idle'', JStr ''moveForward'', JStr ''pickUp''] (JStr ''slow'') fresh
       = (case adopt
                 (executeActionArray (accepting_until 4) (JNum (Fin 1)) (JNum (Fin 2))
                    [JStr ''moveForward'', JStr ''pickUp''] (JStr ''slow'')
                    \<lparr>NODE_TLS_REJECT_UNAUTHORIZED = Some ''0'',
                     sent =
                       [\<lparr>verb = POST, url = ''https://localhost/api/simulations/1/agents/2/action'',
                         requestBody = JObj [(''action'', JStr ''idle''), (''mode'', JStr ''slow'')],
                         json = True\<rparr>,
                        \<lparr>verb = PUT, url = ''https://localhost/api/simulations/1/step'',
                         requestBody = JObj [], json = True\<rparr>,
                        \<lparr>verb = GET, url = ''https://localhost/api/simulations/1/agents/2/status'',
                         requestBody = JUndefined, json = False\<rparr>]\<rparr>) of
            (r, s2) \<Rightarrow> (ReturnsPromise r, s2))
   \<and> fst (executeActionArray (accepting_until 4) (JNum (Fin 1)) (JNum (Fin 2))
            [JStr ''idle'', JStr ''moveForward'', JStr ''pickUp''] (JStr ''slow'') fresh)
       = ReturnsPromise (Rejected (JStr ''500 Error : null''))
   \<and> posts (sent (snd (executeActionArray (accepting_until 4) (JNum (Fin 1)) (JNum (Fin 2))
                         [JStr ''idle'', JStr ''moveForward'', JStr ''pickUp''] (JStr ''slow'')
                         fresh)))
       = [action_request (accepting_until 4) (JNum (Fin 1)) (JNum (Fin 2)) (JStr ''idle'')
            (JStr ''slow''),
          action_request (accepting_until 4) (JNum (Fin 1)) (JNum (Fin 2)) (JStr ''moveForward'')
            (JStr ''slow'')]
   \<and> simulateAgentAction (answering 500 (JStr ''down'')) (JNum (Fin 1)) (JNum (Fin 2))
         (JStr ''idle'') (JStr ''slow'') fresh
       = (Rejected (JStr ''500 Error : null''),
          \<lparr>NODE_TLS_REJECT_UNAUTHORIZED = None,
           sent = [\<lparr>verb = POST, url = ''https://localhost/api/simulations/1/agents/2/action'',
                    requestBody = JObj [(''action'', JStr ''idle''), (''mode'', JStr ''slow'')],
                    json = True\<rparr>]\<rparr>)
   \<and> executeActionArray (answering 500 (JStr ''down'')) (JNum (Fin 1)) (JNum (Fin 2))
         [JStr ''idle'', JStr ''pickUp''] (JStr ''slow'') fresh
       = (ReturnsPromise (Rejected (JStr ''500 Error : null'')),
          \<lparr>NODE_TLS_REJECT_UNAUTHORIZED = None,
           sent = [\<lparr>verb = POST, url = ''https://localhost/api/simulations/1/agents/2/action'',
                    requestBody = JObj [(''action'', JStr ''idle''), (''mode'', JStr ''slow'')],
                    json = True\<rparr>]\<rparr>)
   \<and> every_cycle_fulfils (answering 200 (JStr ''ok'')) (JNum (Fin 1)) (JNum (Fin 2))
         (JStr ''slow'') [JStr ''turnLeft'', JStr ''drop''] fresh
   \<and> attempted (answering 200 (JStr ''ok'')) (JNum (Fin 1)) (JNum (Fin 2)) (JStr ''slow'')
         [JStr ''turnLeft'', JStr ''drop''] fresh
       = [JStr ''turnLeft'', JStr ''drop'']"
proof -
  note t1 = executeActionArray_in_order
      [of "accepting_until 4" "JNum (Fin 1)" "JNum (Fin 2)" "JStr ''slow''" fresh "JStr ''idle''"
        "JStr ''ok''"
        "\<lparr>NODE_TLS_REJECT_UNAUTHORIZED = Some ''0'',
           sent =
             [\<lparr>verb = POST, url = ''https://localhost/api/simulations/1/agents/2/action'',
               requestBody = JObj [(''action'', JStr ''idle''), (''mode'', JStr ''slow'')],
               json = True\<rparr>,
              \<lparr>verb = PUT, url = ''https://localhost/api/simulations/1/step'',
               requestBody = JObj [], json = True\<rparr>,
              \<lparr>verb = GET, url = ''https://localhost/api/simulations/1/agents/2/status'',
               requestBody = JUndefined, json = False\<rparr>]\<rparr>"
        "[JStr ''moveForward'', JStr ''pickUp'']" _
        "[JStr ''idle'', JStr ''moveForward'', JStr ''pickUp'']"]
  note t2 = executeActionArray_in_order
      [of "answering 200 (JStr ''ok'')" "JNum (Fin 1)" "JNum (Fin 2)" "JStr ''slow''" fresh
        "JStr ''turnLeft''" _ _ "[]" _ "[JStr ''turnLeft'', JStr ''drop'']"]
  note t3 = executeActionArray_in_order
      [of "answering 500 (JStr ''down'')" "JNum (Fin 1)" "JNum (Fin 2)" "JStr ''slow''" fresh
        "JStr ''idle''" _
        "\<lparr>NODE_TLS_REJECT_UNAUTHORIZED = None,
           sent = [\<lparr>verb = POST, url = ''https://localhost/api/simulations/1/agents/2/action'',
                    requestBody = JObj [(''action'', JStr ''idle''), (''mode'', JStr ''slow'')],
                    json = True\<rparr>]\<rparr>"
        "[JStr ''pickUp'']" "JStr ''500 Error : null''"]
  have r: "fst (executeActionArray (accepting_until 4) (JNum (Fin 1)) (JNum (Fin 2))
          [JStr ''idle'', JStr ''moveForward'', JStr ''pickUp''] (JStr ''slow'') fresh)
     = ReturnsPromise (Rejected (JStr ''500 Error : null''))"
    by (simp add: sequence_example)
  note b0 = conjunct1 [OF conjunct2 [OF conjunct2 [OF conjunct2 [OF t1]]]]
  have b: "posts (sent (snd (executeActionArray (accepting_until 4) (JNum (Fin 1)) (JNum (Fin 2))
                         [JStr ''idle'', JStr ''moveForward'', JStr ''pickUp''] (JStr ''slow'')
                         fresh)))
       = [action_request (accepting_until 4) (JNum (Fin 1)) (JNum (Fin 2)) (JStr ''idle'')
            (JStr ''slow''),
          action_request (accepting_until 4) (JNum (Fin 1)) (JNum (Fin 2)) (JStr ''moveForward'')
            (JStr ''slow'')]"
    unfolding b0 sequence_example_attempted posts_fresh by simp
  note c = mp [OF conjunct2 [OF conjunct2 [OF conjunct2 [OF conjunct2 [OF t2]]]]
      sequence_example_fulfils]
  note d = mp [OF conjunct1 [OF conjunct2 [OF conjunct2 [OF t3]]] rejected_cycle_example]
  note a = mp [OF conjunct1 [OF conjunct2 [OF t1]] fulfilled_cycle_example]
  from fulfilled_cycle_example a r b rejected_cycle_example d sequence_example_fulfils c
  show ?thesis by (intro conjI)
qed

text \<open>
  C9. \<^verbatim>\<open>executeActionArray\<close> never hands out the status that the last cycle read. For
  the empty list it returns undefined and no promise. For a list that is not empty and
  whose cycles all are fulfilled it returns a promise fulfilled with undefined, and
  whenever its promise is fulfilled the value is undefined.
\<close>

theorem executeActionArray_yields_undefined:
  "fst (executeActionArray w simulation agent [] mode s) = Returns JUndefined
   \<and> (actions \<noteq> [] \<and> every_cycle_fulfils w simulation agent mode actions s
        \<longrightarrow> fst (executeActionArray w simulation agent actions mode s)
            = ReturnsPromise (Fulfilled JUndefined))
   \<and> (fst (executeActionArray w simulation agent actions mode s) = ReturnsPromise (Fulfilled v)
        \<longrightarrow> v = JUndefined)"
  using all_fulfil_undefined [of actions w simulation agent mode s]
    fulfils_with_undefined [of w simulation agent actions mode s v]
  by (simp add: executeActionArray_Nil)

theorem executeActionArray_yields_undefined_witness:
  "[JStr ''turnLeft'', JStr ''drop''] \<noteq> []
   \<and> every_cycle_fulfils (answering 200 (JStr ''ok'')) (JNum (Fin 1)) (JNum (Fin 2))
         (JStr ''slow'') [JStr ''turnLeft'', JStr ''drop''] fresh
   \<and> fst (simulateAgentAction (answering 200 (JStr ''ok'')) (JNum (Fin 1)) (JNum (Fin 2))
            (JStr ''drop'') (JStr ''slow'')
            (snd (simulateAgentAction (answering 200 (JStr ''ok'')) (JNum (Fin 1))
                    (JNum (Fin 2)) (JStr ''turnLeft'') (JStr ''slow'') fresh)))
       = Fulfilled (JStr ''ok'')
   \<and> fst (executeActionArray (answering 200 (JStr ''ok'')) (JNum (Fin 1)) (JNum (Fin 2))
            [JStr ''turnLeft'', JStr ''drop''] (JStr ''slow'') fresh)
       = ReturnsPromise (Fulfilled JUndefined)"
  using executeActionArray_yields_undefined
    [of "answering 200 (JStr ''ok'')" "JNum (Fin 1)" "JNum (Fin 2)" "JStr ''slow''" fresh
      "[JStr ''turnLeft'', JStr ''drop'']" JUndefined]
  by (simp add: sequence_example_fulfils last_status_example)

subsection \<open>Establishing a simulation\<close>

lemma init_unfold:
  "init w env s =
     (case createSimulation w (JStr ''HW1'') s of
        (Rejected error, s1) \<Rightarrow>
          (Rejected (JStr (''Error creating Simulation '' @ stringified error)), s1)
      | (Pending, s1) \<Rightarrow> (Pending, s1)
      | (Fulfilled createResponse, s1) \<Rightarrow>
          (case get_property createResponse simulationId of
             Inl exn \<Rightarrow> (Rejected (JStr (''Error creating Simulation '' @ stringified exn)), s1)
           | Inr sid \<Rightarrow>
               (case startSimulation w sid s1 of
                  (Rejected error, s2) \<Rightarrow>
                    (Rejected (JStr (''Error starting agent '' @ stringified error)), s2)
                | (Pending, s2) \<Rightarrow> (Pending, s2)
                | (Fulfilled startResponse, s2) \<Rightarrow>
                    (case get_property createResponse simulationData of
                       Inl exn \<Rightarrow>
                         (Rejected (JStr (''Error starting agent '' @ stringified exn)), s2)
                     | Inr sd \<Rightarrow>
                         (case get_property sd NumAgents of
                            Inl exn \<Rightarrow>
                              (Rejected (JStr (''Error starting agent '' @ stringified exn)), s2)
                          | Inr n \<Rightarrow>
                              (case getAgentStatus w sid (JNum (minus_one (parseInt n))) s2 of
                                 (Rejected error, s3) \<Rightarrow>
                                   (Rejected (JStr (''Error getting agent status''
                                                      @ stringified error)), s3)
                               | (Pending, s3) \<Rightarrow> (Pending, s3)
                               | (Fulfilled status, s3) \<Rightarrow>
                                   (Fulfilled
                                      (JObj [(''simulationId'', sid),
                                             (''agents'', JNum (parseInt n)),
                                             (''createResponse'', getObject createResponse),
                                             (''startResponse'', getObject startResponse),
                                             (''agentStatus'', getObject status)]), s3)))))))"
  by (simp add: init_def new_Promise_def promise_catch_def promise_then_def inside_def
      call_resolve_def call_reject_def throw_def Let_def
      split: prod.splits outcome.splits sum.splits)


lemma sent_createSimulation_result:
  "createSimulation w env s = (r, s1) \<Longrightarrow> sent s1 = sent s @ [create_request w env]"
  using sent_createSimulation [of w env s] by simp

lemma sent_startSimulation_result:
  "startSimulation w simulation s = (r, s1) \<Longrightarrow> sent s1 = sent s @ [start_request w simulation]"
  using sent_startSimulation [of w simulation s] by simp

lemma sent_getAgentStatus_result:
  "getAgentStatus w simulation agent s = (r, s1)
   \<Longrightarrow> sent s1 = sent s @ [status_request w simulation agent]"
  using sent_getAgentStatus [of w simulation agent s] by simp

lemma sent_init:
  "sent (snd (init w env s))
     = sent s @ create_request w (JStr ''HW1'') #
       (case createSimulation w (JStr ''HW1'') s of
          (Fulfilled createResponse, s1) \<Rightarrow>
            (case get_property createResponse simulationId of
               Inl exn \<Rightarrow> []
             | Inr sid \<Rightarrow>
                 start_request w sid #
                 (case startSimulation w sid s1 of
                    (Fulfilled startResponse, s2) \<Rightarrow>
                      (case get_property createResponse simulationData of
                         Inl exn \<Rightarrow> []
                       | Inr sd \<Rightarrow>
                           (case get_property sd NumAgents of
                              Inl exn \<Rightarrow> []
                            | Inr n \<Rightarrow>
                                [status_request w sid (JNum (minus_one (parseInt n)))]))
                  | (Rejected error, s2) \<Rightarrow> []
                  | (Pending, s2) \<Rightarrow> []))
        | (Rejected error, s1) \<Rightarrow> []
        | (Pending, s1) \<Rightarrow> [])"
proof -
  obtain r1 s1 where c: "createSimulation w (JStr ''HW1'') s = (r1, s1)"
    by (cases "createSimulation w (JStr ''HW1'') s")
  note t1 = sent_createSimulation_result [OF c]
  show ?thesis
  proof (cases r1)
    case (Rejected e)
    with c t1 show ?thesis by (simp add: init_unfold)
  next
    case Pending
    with c t1 show ?thesis by (simp add: init_unfold)
  next
    case cr: (Fulfilled createResponse)
    show ?thesis
    proof (cases "get_property createResponse simulationId")
      case (Inl exn)
      with c t1 cr show ?thesis by (simp add: init_unfold)
    next
      case sid: (Inr sid)
      obtain r2 s2 where st: "startSimulation w sid s1 = (r2, s2)"
        by (cases "startSimulation w sid s1")
      note t2 = sent_startSimulation_result [OF st]
      show ?thesis
      proof (cases r2)
        case (Rejected e)
        with c t1 cr sid st t2 show ?thesis by (simp add: init_unfold)
      next
        case Pending
        with c t1 cr sid st t2 show ?thesis by (simp add: init_unfold)
      next
        case sr: (Fulfilled startResponse)
        show ?thesis
        proof (cases "get_property createResponse simulationData")
          case (Inl exn)
          with c t1 cr sid st t2 sr show ?thesis by (simp add: init_unfold)
        next
          case sd: (Inr sd)
          show ?thesis
          proof (cases "get_property sd NumAgents")
            case (Inl exn)
            with c t1 cr sid st t2 sr sd show ?thesis by (simp add: init_unfold)
          next
            case n: (Inr n)
            obtain r3 s3 where
              g: "getAgentStatus w sid (JNum (minus_one (parseInt n))) s2 = (r3, s3)"
              by (cases "getAgentStatus w sid (JNum (minus_one (parseInt n))) s2")
            note t3 = sent_getAgentStatus_result [OF g]
            from c t1 cr sid st t2 sr sd n g t3 show ?thesis
              by (cases r3) (simp_all add: init_unfold)
          qed
        qed
      qed
    qed
  qed
qed

text \<open>
  A service that creates simulation 7 with three agents, starts it, and knows no agent.
\<close>

definition staged_service :: world where
  \<open>staged_service =
     \<lparr>SIMULATION_SERVER = JStr ''localhost'',
      remote = (\<lambda>s req.
        if verb req = POST then
          Reply JNull (Some \<lparr>statusCode = 201\<rparr>)
            (JObj [(''simulationId'', JNum (Fin 7)),
                   (''simulationData'', JObj [(''NumAgents'', JStr ''3'')])])
        else if verb req = PUT then
          Reply JNull (Some \<lparr>statusCode = 200\<rparr>) (JStr ''{"started":true}'')
        else Reply JNull (Some \<lparr>statusCode = 404\<rparr>) (JStr ''no such agent''))\<rparr>\<close>

lemma init_example:
  \<open>init staged_service (JStr ''HW2'') fresh
     = (Rejected (JStr ''Error getting agent status"no such agent"''),
        \<lparr>NODE_TLS_REJECT_UNAUTHORIZED = Some ''0'',
         sent =
           [\<lparr>verb = POST, url = ''https://localhost/api/simulations/create'',
             requestBody = JObj [(''env_name'', JStr ''HW1'')], json = True\<rparr>,
            \<lparr>verb = PUT, url = ''https://localhost/api/simulations/7/start'',
             requestBody = JUndefined, json = False\<rparr>,
            \<lparr>verb = GET, url = ''https://localhost/api/simulations/7/agents/2/status'',
             requestBody = JUndefined, json = False\<rparr>]\<rparr>)\<close>
  by code_simp

lemma init_example_down:
  \<open>init (answering 500 (JStr ''down'')) (JStr ''HW2'') fresh
     = (Rejected (JStr ''Error creating Simulation "down"''),
        \<lparr>NODE_TLS_REJECT_UNAUTHORIZED = Some ''0'',
         sent =
           [\<lparr>verb = POST, url = ''https://localhost/api/simulations/create'',
             requestBody = JObj [(''env_name'', JStr ''HW1'')], json = True\<rparr>]\<rparr>)\<close>
  by code_simp

text \<open>
  The stages of \<^verbatim>\<open>init\<close>. It does not use its parameter: it creates the simulation
  with the literal \<^verbatim>\<open>HW1\<close>. It then starts the simulation whose id the create response
  carries and reads the status of the agent numbered one below \<^verbatim>\<open>parseInt\<close> of the
  agent count. Each stage runs only when the one before is fulfilled; a stage whose
  promise is rejected rejects \<^verbatim>\<open>init\<close> with a message that starts with the name of the
  stage, and no request of a later stage is issued.
\<close>

lemma init_stages:
  "init w env s = init w env' s
   \<and> init w env s
       = (case createSimulation w (JStr ''HW1'') s of
            (Rejected error, s1) \<Rightarrow>
              (Rejected (JStr (''Error creating Simulation '' @ stringified error)), s1)
          | (Pending, s1) \<Rightarrow> (Pending, s1)
          | (Fulfilled createResponse, s1) \<Rightarrow>
              (case get_property createResponse simulationId of
                 Inl exn \<Rightarrow>
                   (Rejected (JStr (''Error creating Simulation '' @ stringified exn)), s1)
               | Inr sid \<Rightarrow>
                   (case startSimulation w sid s1 of
                      (Rejected error, s2) \<Rightarrow>
                        (Rejected (JStr (''Error starting agent '' @ stringified error)), s2)
                    | (Pending, s2) \<Rightarrow> (Pending, s2)
                    | (Fulfilled startResponse, s2) \<Rightarrow>
                        (case get_property createResponse simulationData of
                           Inl exn \<Rightarrow>
                             (Rejected (JStr (''Error starting agent '' @ stringified exn)), s2)
                         | Inr sd \<Rightarrow>
                             (case get_property sd NumAgents of
                                Inl exn \<Rightarrow>
                                  (Rejected (JStr (''Error starting agent ''
                                                     @ stringified exn)), s2)
                              | Inr n \<Rightarrow>
                                  (case getAgentStatus w sid (JNum (minus_one (parseInt n)))
                                          s2 of
                                     (Rejected error, s3) \<Rightarrow>
                                       (Rejected (JStr (''Error getting agent status''
                                                          @ stringified error)), s3)
                                   | (Pending, s3) \<Rightarrow> (Pending, s3)
                                   | (Fulfilled status, s3) \<Rightarrow>
                                       (Fulfilled
                                          (JObj [(''simulationId'', sid),
                                                 (''agents'', JNum (parseInt n)),
                                                 (''createResponse'', getObject createResponse),
                                                 (''startResponse'', getObject startResponse),
                                                 (''agentStatus'', getObject status)]),
                                        s3)))))))
   \<and> sent (snd (init w env s))
       = sent s @ create_request w (JStr ''HW1'') #
         (case createSimulation w (JStr ''HW1'') s of
            (Fulfilled createResponse, s1) \<Rightarrow>
              (case get_property createResponse simulationId of
                 Inl exn \<Rightarrow> []
               | Inr sid \<Rightarrow>
                   start_request w sid #
                   (case startSimulation w sid s1 of
                      (Fulfilled startResponse, s2) \<Rightarrow>
                        (case get_property createResponse simulationData of
                           Inl exn \<Rightarrow> []
                         | Inr sd \<Rightarrow>
                             (case get_property sd NumAgents of
                                Inl exn \<Rightarrow> []
                              | Inr n \<Rightarrow>
                                  [status_request w sid (JNum (minus_one (parseInt n)))]))
                    | (Rejected error, s2) \<Rightarrow> []
                    | (Pending, s2) \<Rightarrow> []))
          | (Rejected error, s1) \<Rightarrow> []
          | (Pending, s1) \<Rightarrow> [])"
proof (intro conjI)
  show "init w env s = init w env' s" by (simp add: init_def)
  show "sent (snd (init w env s)) = sent s @ create_request w (JStr ''HW1'') #
         (case createSimulation w (JStr ''HW1'') s of
            (Fulfilled createResponse, s1) \<Rightarrow>
              (case get_property createResponse simulationId of
                 Inl exn \<Rightarrow> []
               | Inr sid \<Rightarrow>
                   start_request w sid #
                   (case startSimulation w sid s1 of
                      (Fulfilled startResponse, s2) \<Rightarrow>
                        (case get_property createResponse simulationData of
                           Inl exn \<Rightarrow> []
                         | Inr sd \<Rightarrow>
                             (case get_property sd NumAgents of
                                Inl exn \<Rightarrow> []
                              | Inr n \<Rightarrow>
                                  [status_request w sid (JNum (minus_one (parseInt n)))]))
                    | (Rejected error, s2) \<Rightarrow> []
                    | (Pending, s2) \<Rightarrow> []))
          | (Rejected error, s1) \<Rightarrow> []
          | (Pending, s1) \<Rightarrow> [])"
    by (rule sent_init)
qed (rule init_unfold)

lemma init_stages_example:
  \<open>init staged_service (JStr ''HW9'') fresh
     = (Rejected (JStr ''Error getting agent status"no such agent"''),
        \<lparr>NODE_TLS_REJECT_UNAUTHORIZED = Some ''0'',
         sent =
           [\<lparr>verb = POST, url = ''https://localhost/api/simulations/create'',
             requestBody = JObj [(''env_name'', JStr ''HW1'')], json = True\<rparr>,
            \<lparr>verb = PUT, url = ''https://localhost/api/simulations/7/start'',
             requestBody = JUndefined, json = False\<rparr>,
            \<lparr>verb = GET, url = ''https://localhost/api/simulations/7/agents/2/status'',
             requestBody = JUndefined, json = False\<rparr>]\<rparr>)
   \<and> init (answering 500 (JStr ''down'')) (JStr ''HW9'') fresh
       = (Rejected (JStr ''Error creating Simulation "down"''),
          \<lparr>NODE_TLS_REJECT_UNAUTHORIZED = Some ''0'',
           sent =
             [\<lparr>verb = POST, url = ''https://localhost/api/simulations/create'',
               requestBody = JObj [(''env_name'', JStr ''HW1'')], json = True\<rparr>]\<rparr>)\<close>
proof -
  note a = conjunct1 [OF init_stages [of staged_service "JStr ''HW2''" fresh "JStr ''HW9''"]]
  note b = conjunct1
    [OF init_stages [of "answering 500 (JStr ''down'')" "JStr ''HW2''" fresh "JStr ''HW9''"]]
  show ?thesis
    unfolding a [symmetric] b [symmetric] init_example init_example_down by simp
qed

subsection \<open>Response normalisation\<close>

lemma JSON_parse_object: "JSON_parse (JObj kvs) = None"
proof -
  have "lex ''[object Object]'' = None" by code_simp
  then show ?thesis by (simp add: JSON_parse_def)
qed

lemma JSON_parse_undefined: "JSON_parse JUndefined = None"
  by code_simp

lemma JSON_parse_null: "JSON_parse JNull = Some JNull"
  by code_simp

lemma JSON_parse_true: "JSON_parse (JBool True) = Some (JBool True)"
  by code_simp

lemma JSON_parse_false: "JSON_parse (JBool False) = Some (JBool False)"
  by code_simp

lemma JSON_parse_bool: "JSON_parse (JBool b) = Some (JBool b)"
  using JSON_parse_true JSON_parse_false by (cases b) simp_all

lemma getObject_fixed:
  "getObject (JObj kvs) = JObj kvs" "getObject JUndefined = JUndefined"
  "getObject JNull = JNull" "getObject (JBool b) = JBool b"
  by (simp_all add: getObject_def JSON_parse_object JSON_parse_undefined JSON_parse_null
      JSON_parse_bool)

lemma getObject_twice:
  "getObject (getObject data) = getObject data
   \<longleftrightarrow> JSON_parse (getObject data) = None \<or> JSON_parse (getObject data) = Some (getObject data)"
  by (cases "JSON_parse (getObject data)") (simp_all add: getObject_def [of "getObject data"])

lemma getObject_example:
  \<open>getObject (JStr ''{"a":1}'') = JObj [(''a'', JNum (Fin 1))]\<close>
  by code_simp

lemma JSON_parse_example:
  \<open>JSON_parse (JStr ''{"a":1}'') = Some (JObj [(''a'', JNum (Fin 1))])\<close>
  by code_simp

text \<open>
  C8, as the specification states it, fails. The JSON text of the string \<^verbatim>\<open>1\<close> decodes to
  that string, and a second application decodes the string to the number 1, so
  \<^verbatim>\<open>getObject\<close> is not idempotent; and the array that holds the number 1, which is no
  string, comes back as the number.
\<close>

theorem getObject_not_idempotent:
  \<open>getObject (JStr ''"1"'') = JStr ''1''
   \<and> getObject (getObject (JStr ''"1"'')) = JNum (Fin 1)
   \<and> getObject (getObject (JStr ''"1"'')) \<noteq> getObject (JStr ''"1"'')
   \<and> getObject (JArr [JNum (Fin 1)]) \<noteq> JArr [JNum (Fin 1)]\<close>
  by code_simp

text \<open>
  C8, amended. \<^verbatim>\<open>getObject\<close> returns what \<^verbatim>\<open>JSON.parse\<close> makes of its argument and
  returns the argument unchanged when \<^verbatim>\<open>JSON.parse\<close> throws; so a JSON text is decoded,
  and a plain object, undefined, null and a boolean come back unchanged. A second
  application changes nothing exactly when the first result is not JSON text again or
  decodes to itself, in particular when the first result is a plain object, undefined,
  null or a boolean.
\<close>

theorem getObject_normalises:
  \<open>(JSON_parse data = Some v \<longrightarrow> getObject data = v)
   \<and> (JSON_parse data = None \<longrightarrow> getObject data = data)
   \<and> getObject (JStr ''{"a":1}'') = JObj [(''a'', JNum (Fin 1))]
   \<and> getObject (JObj kvs) = JObj kvs
   \<and> getObject JUndefined = JUndefined \<and> getObject JNull = JNull
   \<and> getObject (JBool b) = JBool b
   \<and> (getObject (getObject data) = getObject data
        \<longleftrightarrow> JSON_parse (getObject data) = None
            \<or> JSON_parse (getObject data) = Some (getObject data))
   \<and> ((\<exists>kvs'. getObject data = JObj kvs') \<or> getObject data = JUndefined
         \<or> getObject data = JNull \<or> (\<exists>b'. getObject data = JBool b')
        \<longrightarrow> getObject (getObject data) = getObject data)\<close>
proof -
  have last: "getObject (getObject data) = getObject data"
    if "(\<exists>kvs'. getObject data = JObj kvs') \<or> getObject data = JUndefined
         \<or> getObject data = JNull \<or> (\<exists>b'. getObject data = JBool b')"
    using that getObject_fixed by auto
  show ?thesis
    using getObject_twice [of data] last
    by (simp add: getObject_fixed getObject_example) (simp add: getObject_def)
qed

theorem getObject_normalises_witness:
  \<open>JSON_parse (JStr ''{"a":1}'') = Some (JObj [(''a'', JNum (Fin 1))])
   \<and> getObject (JStr ''{"a":1}'') = JObj [(''a'', JNum (Fin 1))]
   \<and> JSON_parse (JObj [(''a'', JNum (Fin 1))]) = None
   \<and> getObject (JObj [(''a'', JNum (Fin 1))]) = JObj [(''a'', JNum (Fin 1))]
   \<and> getObject (getObject (JStr ''{"a":1}'')) = getObject (JStr ''{"a":1}'')\<close>
proof -
  note t = getObject_normalises
    [of \<open>JStr ''{"a":1}''\<close> \<open>JObj [(''a'', JNum (Fin 1))]\<close> \<open>[(''a'', JNum (Fin 1))]\<close> True]
  note u = getObject_normalises
    [of \<open>JObj [(''a'', JNum (Fin 1))]\<close> JNull \<open>[(''a'', JNum (Fin 1))]\<close> True]
  from t JSON_parse_example have a: \<open>getObject (JStr ''{"a":1}'') = JObj [(''a'', JNum (Fin 1))]\<close>
    by blast
  from u have b: \<open>getObject (JObj [(''a'', JNum (Fin 1))]) = JObj [(''a'', JNum (Fin 1))]\<close>
    by blast
  from t a have c: \<open>getObject (getObject (JStr ''{"a":1}'')) = getObject (JStr ''{"a":1}'')\<close>
    by blast
  from JSON_parse_example a JSON_parse_object b c show ?thesis by blast
qed

subsection \<open>A request without a response\<close>

text \<open>
  When the library calls back with an error and no response, the callbacks of
  \<^verbatim>\<open>startSimulation\<close>, \<^verbatim>\<open>getAgentStatus\<close>, \<^verbatim>\<open>performAgentAction\<close> and
  \<^verbatim>\<open>simulateStep\<close> read \<^verbatim>\<open>response.statusCode\<close> and throw; only that of
  \<^verbatim>\<open>createSimulation\<close> tests the response first. The promise of the stage is then
  never settled, and neither is the promise built on it.
\<close>

text \<open>
  A service that answers 200 to the first \<open>n\<close> requests of a run and cannot be reached
  from then on.
\<close>

definition unreachable_after :: "nat \<Rightarrow> world" where
  "unreachable_after n =
     \<lparr>SIMULATION_SERVER = JStr ''localhost'',
      remote = (\<lambda>s req. if length (sent s) < n
                          then Reply JNull (Some \<lparr>statusCode = 200\<rparr>) (JStr ''ok'')
                          else Reply (JError ''Error'' ''connect ECONNREFUSED'') None
                                 JUndefined)\<rparr>"

lemma simulateStep_valid:
  assumes "truthy simulation" "Number_isInteger simulation"
  shows "fst (simulateStep w simulation s)
           = simulateStep_callback Pending (remote w s (step_request w simulation))"
  using assms by (simp add: simulateStep_def Let_def send_def step_request_def)

lemma getAgentStatus_outcome:
  "fst (getAgentStatus w simulation agent s)
     = getAgentStatus_callback Pending
         (remote w (s\<lparr>NODE_TLS_REJECT_UNAUTHORIZED := Some ''0''\<rparr>)
            (status_request w simulation agent))"
  by (simp add: getAgentStatus_def Let_def send_def status_request_def)

lemma performAgentAction_fulfilled_valid:
  assumes "fst (performAgentAction w simulation agent action mode s) = Fulfilled v"
  shows "truthy simulation \<and> Number_isInteger simulation"
proof (rule ccontr)
  assume "\<not> (truthy simulation \<and> Number_isInteger simulation)"
  then have "\<not> truthy simulation \<or> \<not> Number_isInteger simulation" by blast
  from performAgentAction_bad_simulation [OF this, of w agent action mode s] assms
  show False by simp
qed

lemma cycle_pending_at_action:
  assumes "truthy simulation" "Number_isInteger simulation" "Number_isInteger agent"
    "Array_includes (Object_values AgentAction) action" "\<not> eq_null mode"
    "remote w s (action_request w simulation agent action mode) = Reply error None body"
  shows "fst (simulateAgentAction w simulation agent action mode s) = Pending"
proof -
  have "fst (performAgentAction w simulation agent action mode s) = Pending"
    using performAgentAction_valid [OF assms(1-5), of w s] assms(6)
    by (simp add: response_eq_number_def)
  then show ?thesis
    by (cases "performAgentAction w simulation agent action mode s")
      (simp add: simulateAgentAction_unfold)
qed

lemma cycle_pending_at_step:
  assumes "performAgentAction w simulation agent action mode s = (Fulfilled actionOut, s1)"
    "remote w s1 (step_request w simulation) = Reply error None body"
  shows "fst (simulateAgentAction w simulation agent action mode s) = Pending"
proof -
  from assms(1) have "fst (performAgentAction w simulation agent action mode s) = Fulfilled actionOut"
    by simp
  from performAgentAction_fulfilled_valid [OF this]
  have "fst (simulateStep w simulation s1) = Pending"
    using simulateStep_valid [of simulation w s1] assms(2) by simp
  with assms(1) show ?thesis
    by (cases "simulateStep w simulation s1") (simp add: simulateAgentAction_unfold)
qed

lemma cycle_pending_at_status:
  assumes "performAgentAction w simulation agent action mode s = (Fulfilled actionOut, s1)"
    "simulateStep w simulation s1 = (Fulfilled stepOut, s2)"
    "remote w (s2\<lparr>NODE_TLS_REJECT_UNAUTHORIZED := Some ''0''\<rparr>)
       (status_request w simulation agent) = Reply error None body"
  shows "fst (simulateAgentAction w simulation agent action mode s) = Pending"
  using assms getAgentStatus_outcome [of w simulation agent s2]
  by (simp add: simulateAgentAction_unfold)

lemma unreachable_example_valid:
  "truthy (JNum (Fin 1)) \<and> Number_isInteger (JNum (Fin 1)) \<and> Number_isInteger (JNum (Fin 2))
   \<and> Array_includes (Object_values AgentAction) (JStr ''idle'') \<and> \<not> eq_null (JStr ''slow'')"
  by (simp add: Array_includes_def Object_values_def AgentAction_def eq_null_def)

lemma unreachable_example_reply:
  "remote (unreachable_after 0) fresh
     (action_request (unreachable_after 0) (JNum (Fin 1)) (JNum (Fin 2)) (JStr ''idle'')
        (JStr ''slow''))
     = Reply (JError ''Error'' ''connect ECONNREFUSED'') None JUndefined"
  by (simp add: unreachable_after_def)

lemma unreachable_example_cycle:
  "simulateAgentAction (unreachable_after 0) (JNum (Fin 1)) (JNum (Fin 2)) (JStr ''idle'')
       (JStr ''slow'') fresh
     = (Pending,
        \<lparr>NODE_TLS_REJECT_UNAUTHORIZED = None,
         sent = [\<lparr>verb = POST, url = ''https://localhost/api/simulations/1/agents/2/action'',
                  requestBody = JObj [(''action'', JStr ''idle''), (''mode'', JStr ''slow'')],
                  json = True\<rparr>]\<rparr>)"
  by code_simp

lemma unreachable_example_action:
  "performAgentAction (unreachable_after 2) (JNum (Fin 1)) (JNum (Fin 2)) (JStr ''idle'')
       (JStr ''slow'') fresh
     = (Fulfilled (JStr ''ok''),
        \<lparr>NODE_TLS_REJECT_UNAUTHORIZED = None,
         sent = [\<lparr>verb = POST, url = ''https://localhost/api/simulations/1/agents/2/action'',
                  requestBody = JObj [(''action'', JStr ''idle''), (''mode'', JStr ''slow'')],
                  json = True\<rparr>]\<rparr>)"
  by code_simp

lemma unreachable_example_step:
  "simulateStep (unreachable_after 2) (JNum (Fin 1))
       \<lparr>NODE_TLS_REJECT_UNAUTHORIZED = None,
        sent = [\<lparr>verb = POST, url = ''https://localhost/api/simulations/1/agents/2/action'',
                 requestBody = JObj [(''action'', JStr ''idle''), (''mode'', JStr ''slow'')],
                 json = True\<rparr>]\<rparr>
     = (Fulfilled (JStr ''ok''),
        \<lparr>NODE_TLS_REJECT_UNAUTHORIZED = None,
         sent = [\<lparr>verb = POST, url = ''https://localhost/api/simulations/1/agents/2/action'',
                  requestBody = JObj [(''action'', JStr ''idle''), (''mode'', JStr ''slow'')],
                  json = True\<rparr>,
                 \<lparr>verb = PUT, url = ''https://localhost/api/simulations/1/step'',
                  requestBody = JObj [], json = True\<rparr>]\<rparr>)"
  by code_simp

lemma unreachable_example_status_reply:
  "remote (unreachable_after 2)
     (\<lparr>NODE_TLS_REJECT_UNAUTHORIZED = None,
        sent = [\<lparr>verb = POST, url = ''https://localhost/api/simulations/1/agents/2/action'',
                 requestBody = JObj [(''action'', JStr ''idle''), (''mode'', JStr ''slow'')],
                 json = True\<rparr>,
                \<lparr>verb = PUT, url = ''https://localhost/api/simulations/1/step'',
                 requestBody = JObj [], json = True\<rparr>]\<rparr>
        \<lparr>NODE_TLS_REJECT_UNAUTHORIZED := Some ''0''\<rparr>)
     (status_request (unreachable_after 2) (JNum (Fin 1)) (JNum (Fin 2)))
     = Reply (JError ''Error'' ''connect ECONNREFUSED'') None JUndefined"
  by (simp add: unreachable_after_def)

text \<open>
  C1. The cycle does not fail when a stage fails for lack of a response. On valid
  arguments, if the request of \<^verbatim>\<open>performAgentAction\<close>, of \<^verbatim>\<open>simulateStep\<close> or of
  \<^verbatim>\<open>getAgentStatus\<close> gets no response, the promise of \<^verbatim>\<open>simulateAgentAction\<close> is
  neither rejected nor fulfilled: it stays pending.
\<close>

theorem simulateAgentAction_no_response_never_fails:
  "(truthy simulation \<and> Number_isInteger simulation \<and> Number_isInteger agent
      \<and> Array_includes (Object_values AgentAction) action \<and> \<not> eq_null mode
      \<and> remote w s (action_request w simulation agent action mode) = Reply error None body
    \<longrightarrow> fst (simulateAgentAction w simulation agent action mode s) = Pending)
   \<and> (performAgentAction w simulation agent action mode s = (Fulfilled actionOut, s1)
       \<and> remote w s1 (step_request w simulation) = Reply error None body
    \<longrightarrow> fst (simulateAgentAction w simulation agent action mode s) = Pending)
   \<and> (performAgentAction w simulation agent action mode s = (Fulfilled actionOut, s1)
       \<and> simulateStep w simulation s1 = (Fulfilled stepOut, s2)
       \<and> remote w (s2\<lparr>NODE_TLS_REJECT_UNAUTHORIZED := Some ''0''\<rparr>)
            (status_request w simulation agent) = Reply error None body
    \<longrightarrow> fst (simulateAgentAction w simulation agent action mode s) = Pending)"
  using cycle_pending_at_action [of simulation agent action mode w s error body]
    cycle_pending_at_step [of w simulation agent action mode s actionOut s1 error body]
    cycle_pending_at_status [of w simulation agent action mode s actionOut s1 stepOut s2 error body]
  by blast

theorem simulateAgentAction_no_response_never_fails_witness:
  "(truthy (JNum (Fin 1)) \<and> Number_isInteger (JNum (Fin 1)) \<and> Number_isInteger (JNum (Fin 2))
      \<and> Array_includes (Object_values AgentAction) (JStr ''idle'') \<and> \<not> eq_null (JStr ''slow'')
      \<and> remote (unreachable_after 0) fresh
            (action_request (unreachable_after 0) (JNum (Fin 1)) (JNum (Fin 2)) (JStr ''idle'')
               (JStr ''slow''))
          = Reply (JError ''Error'' ''connect ECONNREFUSED'') None JUndefined)
   \<and> fst (simulateAgentAction (unreachable_after 0) (JNum (Fin 1)) (JNum (Fin 2)) (JStr ''idle'')
            (JStr ''slow'') fresh) = Pending
   \<and> sent (snd (simulateAgentAction (unreachable_after 0) (JNum (Fin 1)) (JNum (Fin 2))
                  (JStr ''idle'') (JStr ''slow'') fresh))
       = [\<lparr>verb = POST, url = ''https://localhost/api/simulations/1/agents/2/action'',
           requestBody = JObj [(''action'', JStr ''idle''), (''mode'', JStr ''slow'')],
           json = True\<rparr>]
   \<and> fst (simulateAgentAction (unreachable_after 2) (JNum (Fin 1)) (JNum (Fin 2)) (JStr ''idle'')
            (JStr ''slow'') fresh) = Pending"
proof -
  note t0 = simulateAgentAction_no_response_never_fails
    [of "JNum (Fin 1)" "JNum (Fin 2)" "JStr ''idle''" "JStr ''slow''" "unreachable_after 0" fresh
      "JError ''Error'' ''connect ECONNREFUSED''" JUndefined]
  note t2 = simulateAgentAction_no_response_never_fails
    [of "JNum (Fin 1)" "JNum (Fin 2)" "JStr ''idle''" "JStr ''slow''" "unreachable_after 2" fresh
      "JError ''Error'' ''connect ECONNREFUSED''" JUndefined "JStr ''ok''"
      "\<lparr>NODE_TLS_REJECT_UNAUTHORIZED = None,
        sent = [\<lparr>verb = POST, url = ''https://localhost/api/simulations/1/agents/2/action'',
                 requestBody = JObj [(''action'', JStr ''idle''), (''mode'', JStr ''slow'')],
                 json = True\<rparr>]\<rparr>"
      "JStr ''ok''"
      "\<lparr>NODE_TLS_REJECT_UNAUTHORIZED = None,
        sent = [\<lparr>verb = POST, url = ''https://localhost/api/simulations/1/agents/2/action'',
                 requestBody = JObj [(''action'', JStr ''idle''), (''mode'', JStr ''slow'')],
                 json = True\<rparr>,
                \<lparr>verb = PUT, url = ''https://localhost/api/simulations/1/step'',
                 requestBody = JObj [], json = True\<rparr>]\<rparr>"]
  from t0 unreachable_example_valid unreachable_example_reply
  have a: "fst (simulateAgentAction (unreachable_after 0) (JNum (Fin 1)) (JNum (Fin 2))
             (JStr ''idle'') (JStr ''slow'') fresh) = Pending"
    by blast
  from t2 unreachable_example_action unreachable_example_step unreachable_example_status_reply
  have b: "fst (simulateAgentAction (unreachable_after 2) (JNum (Fin 1)) (JNum (Fin 2))
             (JStr ''idle'') (JStr ''slow'') fresh) = Pending"
    by blast
  have c: "sent (snd (simulateAgentAction (unreachable_after 0) (JNum (Fin 1)) (JNum (Fin 2))
                  (JStr ''idle'') (JStr ''slow'') fresh))
       = [\<lparr>verb = POST, url = ''https://localhost/api/simulations/1/agents/2/action'',
           requestBody = JObj [(''action'', JStr ''idle''), (''mode'', JStr ''slow'')],
           json = True\<rparr>]"
    by (simp add: unreachable_example_cycle)
  from unreachable_example_valid unreachable_example_reply a c b show ?thesis by blast
qed

text \<open>
  A service that creates simulation 7 with three agents and cannot be reached after that.
\<close>

definition start_unreachable :: world where
  "start_unreachable =
     \<lparr>SIMULATION_SERVER = JStr ''localhost'',
      remote = (\<lambda>s req.
        if verb req = POST then
          Reply JNull (Some \<lparr>statusCode = 201\<rparr>)
            (JObj [(''simulationId'', JNum (Fin 7)),
                   (''simulationData'', JObj [(''NumAgents'', JStr ''3'')])])
        else Reply (JError ''Error'' ''connect ECONNREFUSED'') None JUndefined)\<rparr>"

lemma init_pending_at_start:
  assumes "createSimulation w (JStr ''HW1'') s = (Fulfilled createResponse, s1)"
    "get_property createResponse simulationId = Inr sid"
    "remote w (s1\<lparr>NODE_TLS_REJECT_UNAUTHORIZED := Some ''0''\<rparr>) (start_request w sid)
       = Reply error None body"
  shows "fst (init w env s) = Pending"
proof -
  have "fst (startSimulation w sid s1) = Pending"
    using startSimulation_outcome [of w sid s1] assms(3) by simp
  with assms(1,2) show ?thesis
    by (cases "startSimulation w sid s1") (simp add: init_unfold)
qed

lemma init_pending_at_status:
  assumes "createSimulation w (JStr ''HW1'') s = (Fulfilled createResponse, s1)"
    "get_property createResponse simulationId = Inr sid"
    "startSimulation w sid s1 = (Fulfilled startResponse, s2)"
    "get_property createResponse simulationData = Inr sd"
    "get_property sd NumAgents = Inr n"
    "remote w (s2\<lparr>NODE_TLS_REJECT_UNAUTHORIZED := Some ''0''\<rparr>)
       (status_request w sid (JNum (minus_one (parseInt n)))) = Reply error None body"
  shows "fst (init w env s) = Pending"
proof -
  have "fst (getAgentStatus w sid (JNum (minus_one (parseInt n))) s2) = Pending"
    using getAgentStatus_outcome [of w sid "JNum (minus_one (parseInt n))" s2] assms(6) by simp
  with assms(1-5) show ?thesis
    by (cases "getAgentStatus w sid (JNum (minus_one (parseInt n))) s2") (simp add: init_unfold)
qed

lemma init_rejected_at_create:
  assumes "remote w (s\<lparr>NODE_TLS_REJECT_UNAUTHORIZED := Some ''0''\<rparr>)
             (create_request w (JStr ''HW1'')) = Reply error None body"
  shows "fst (init w env s)
           = Rejected (JStr (''Error creating Simulation '' @ stringified (js_or error body)))"
proof -
  have "fst (createSimulation w (JStr ''HW1'') s) = Rejected (js_or error body)"
    using createSimulation_outcome [of w "JStr ''HW1''" s] assms by simp
  then show ?thesis
    by (cases "createSimulation w (JStr ''HW1'') s") (simp add: init_unfold)
qed

lemma start_unreachable_create:
  "createSimulation start_unreachable (JStr ''HW1'') fresh
     = (Fulfilled (JObj [(''simulationId'', JNum (Fin 7)),
                         (''simulationData'', JObj [(''NumAgents'', JStr ''3'')])]),
        \<lparr>NODE_TLS_REJECT_UNAUTHORIZED = Some ''0'',
         sent = [\<lparr>verb = POST, url = ''https://localhost/api/simulations/create'',
                  requestBody = JObj [(''env_name'', JStr ''HW1'')], json = True\<rparr>]\<rparr>)"
  by code_simp

lemma start_unreachable_id:
  "get_property (JObj [(''simulationId'', JNum (Fin 7)),
                       (''simulationData'', JObj [(''NumAgents'', JStr ''3'')])]) simulationId
     = Inr (JNum (Fin 7))"
  by code_simp

lemma start_unreachable_reply:
  "remote start_unreachable
     (\<lparr>NODE_TLS_REJECT_UNAUTHORIZED = Some ''0'',
        sent = [\<lparr>verb = POST, url = ''https://localhost/api/simulations/create'',
                 requestBody = JObj [(''env_name'', JStr ''HW1'')], json = True\<rparr>]\<rparr>
        \<lparr>NODE_TLS_REJECT_UNAUTHORIZED := Some ''0''\<rparr>)
     (start_request start_unreachable (JNum (Fin 7)))
     = Reply (JError ''Error'' ''connect ECONNREFUSED'') None JUndefined"
  by (simp add: start_unreachable_def start_request_def)

lemma start_unreachable_init:
  "init start_unreachable (JStr ''HW1'') fresh
     = (Pending,
        \<lparr>NODE_TLS_REJECT_UNAUTHORIZED = Some ''0'',
         sent = [\<lparr>verb = POST, url = ''https://localhost/api/simulations/create'',
                  requestBody = JObj [(''env_name'', JStr ''HW1'')], json = True\<rparr>,
                 \<lparr>verb = PUT, url = ''https://localhost/api/simulations/7/start'',
                  requestBody = JUndefined, json = False\<rparr>]\<rparr>)"
  by code_simp

text \<open>
  C7. \<^verbatim>\<open>init\<close> does not fail when the start stage or the status stage fails for lack
  of a response: its promise stays pending, with no message naming the stage. Only the
  create stage rejects in that case, with the message of the create stage.
\<close>

theorem init_no_response_never_fails:
  "(createSimulation w (JStr ''HW1'') s = (Fulfilled createResponse, s1)
      \<and> get_property createResponse simulationId = Inr sid
      \<and> remote w (s1\<lparr>NODE_TLS_REJECT_UNAUTHORIZED := Some ''0''\<rparr>) (start_request w sid)
          = Reply error None body
    \<longrightarrow> fst (init w env s) = Pending)
   \<and> (createSimulation w (JStr ''HW1'') s = (Fulfilled createResponse, s1)
       \<and> get_property createResponse simulationId = Inr sid
       \<and> startSimulation w sid s1 = (Fulfilled startResponse, s2)
       \<and> get_property createResponse simulationData = Inr sd
       \<and> get_property sd NumAgents = Inr n
       \<and> remote w (s2\<lparr>NODE_TLS_REJECT_UNAUTHORIZED := Some ''0''\<rparr>)
            (status_request w sid (JNum (minus_one (parseInt n)))) = Reply error None body
    \<longrightarrow> fst (init w env s) = Pending)
   \<and> (remote w (s\<lparr>NODE_TLS_REJECT_UNAUTHORIZED := Some ''0''\<rparr>)
         (create_request w (JStr ''HW1'')) = Reply error None body
    \<longrightarrow> fst (init w env s)
          = Rejected (JStr (''Error creating Simulation '' @ stringified (js_or error body))))"
  using init_pending_at_start [of w s createResponse s1 sid error body env]
    init_pending_at_status [of w s createResponse s1 sid startResponse s2 sd n error body env]
    init_rejected_at_create [of w s error body env]
  by blast

theorem init_no_response_never_fails_witness:
  "createSimulation start_unreachable (JStr ''HW1'') fresh
     = (Fulfilled (JObj [(''simulationId'', JNum (Fin 7)),
                         (''simulationData'', JObj [(''NumAgents'', JStr ''3'')])]),
        \<lparr>NODE_TLS_REJECT_UNAUTHORIZED = Some ''0'',
         sent = [\<lparr>verb = POST, url = ''https://localhost/api/simulations/create'',
                  requestBody = JObj [(''env_name'', JStr ''HW1'')], json = True\<rparr>]\<rparr>)
   \<and> remote start_unreachable
         (\<lparr>NODE_TLS_REJECT_UNAUTHORIZED = Some ''0'',
            sent = [\<lparr>verb = POST, url = ''https://localhost/api/simulations/create'',
                     requestBody = JObj [(''env_name'', JStr ''HW1'')], json = True\<rparr>]\<rparr>
            \<lparr>NODE_TLS_REJECT_UNAUTHORIZED := Some ''0''\<rparr>)
         (start_request start_unreachable (JNum (Fin 7)))
       = Reply (JError ''Error'' ''connect ECONNREFUSED'') None JUndefined
   \<and> fst (init start_unreachable (JStr ''HW1'') fresh) = Pending
   \<and> sent (snd (init start_unreachable (JStr ''HW1'') fresh))
       = [\<lparr>verb = POST, url = ''https://localhost/api/simulations/create'',
           requestBody = JObj [(''env_name'', JStr ''HW1'')], json = True\<rparr>,
          \<lparr>verb = PUT, url = ''https://localhost/api/simulations/7/start'',
           requestBody = JUndefined, json = False\<rparr>]"
proof -
  note t = init_no_response_never_fails
    [of start_unreachable fresh
      "JObj [(''simulationId'', JNum (Fin 7)),
             (''simulationData'', JObj [(''NumAgents'', JStr ''3'')])]"
      "\<lparr>NODE_TLS_REJECT_UNAUTHORIZED = Some ''0'',
        sent = [\<lparr>verb = POST, url = ''https://localhost/api/simulations/create'',
                 requestBody = JObj [(''env_name'', JStr ''HW1'')], json = True\<rparr>]\<rparr>"
      "JNum (Fin 7)" "JError ''Error'' ''connect ECONNREFUSED''" JUndefined "JStr ''HW1''"]
  from t start_unreachable_create start_unreachable_id start_unreachable_reply
  have a: "fst (init start_unreachable (JStr ''HW1'') fresh) = Pending" by blast
  have b: "sent (snd (init start_unreachable (JStr ''HW1'') fresh))
       = [\<lparr>verb = POST, url = ''https://localhost/api/simulations/create'',
           requestBody = JObj [(''env_name'', JStr ''HW1'')], json = True\<rparr>,
          \<lparr>verb = PUT, url = ''https://localhost/api/simulations/7/start'',
           requestBody = JUndefined, json = False\<rparr>]"
    by (simp add: start_unreachable_init)
  from start_unreachable_create start_unreachable_reply a b show ?thesis by blast
qed

end
